theory Spec2Isabelle
  imports Complex_Main
begin

section \<open>Amounts\<close>

text \<open>
  Modelled from the spec: the currency class (\<open>currency.js\<close>, with its big-number
  constructor \<open>Bitcoin.BN\<close>) is not among the sources. The data model asks for amounts
  whose addition, subtraction and scaling never lose precision, so an amount is a rational
  number here and \<open>add\<close>, \<open>minus\<close>, \<open>times\<close>, \<open>dividedBy\<close> and \<open>pow\<close> are the exact
  operations. Conversion between the main and the base unit is display only and is left out.
\<close>

type_synonym amount = rat

definition bn_pow :: "amount \<Rightarrow> int \<Rightarrow> amount" where
  "bn_pow x n = (if 0 \<le> n then x ^ nat n else 1 / x ^ nat (- n))"

section \<open>Block counter (utils.js)\<close>

text \<open>
  \<open>BlockCounter\<close> keeps the wallet's block height in the field \<open>block\<close> and writes it to
  the state store under the key \<open>latest_block\<close> (\<open>StateDb.setLatestBlock\<close>). The store
  slot is an option: \<open>None\<close> is a key that was never written. Listeners of the
  \<open>new-block\<close> event are outside the class; the emitted events are collected in a log.
\<close>

record new_block_event =
  ev_current :: int
  ev_diff :: int
  ev_last :: int

record blockCounter =
  block :: int
  latest_block :: "int option"
  emitted :: "new_block_event list"

record newBlock =
  height :: int

definition getLatestBlock :: "blockCounter \<Rightarrow> int" where
  \<comment> \<open>\<open>await (this.store.get('latest_block')) || 0\<close>\<close>
  "getLatestBlock bc = (case latest_block bc of None \<Rightarrow> 0 | Some b \<Rightarrow> b)"

definition init_block :: "blockCounter \<Rightarrow> blockCounter" where
  "init_block bc = bc\<lparr>block := getLatestBlock bc\<rparr>"

definition setBlock :: "newBlock \<Rightarrow> blockCounter \<Rightarrow> bool option \<times> blockCounter" where
  \<comment> \<open>The result \<open>None\<close> is the bare \<open>return\<close> of the reorg branch, \<open>Some True\<close> is \<open>return true\<close>.\<close>
  "setBlock nb bc =
     (let d = height nb - block bc;
          l = block bc
      in if d < 0 then (None, bc)
         else
           (let bc1 = bc\<lparr>block := height nb\<rparr>;
                bc2 = bc1\<lparr>emitted := emitted bc1 @
                        [\<lparr>ev_current = height nb, ev_diff = d, ev_last = l\<rparr>]\<rparr>;
                bc3 = bc2\<lparr>latest_block := Some (block bc2)\<rparr>
            in (Some True, bc3)))"

definition setBlocks :: "newBlock list \<Rightarrow> blockCounter \<Rightarrow> blockCounter" where
  \<comment> \<open>A run of \<open>setBlock\<close> calls, one per pushed header.\<close>
  "setBlocks nbs bc = foldl (\<lambda>s nb. snd (setBlock nb s)) bc nbs"

section \<open>Balance (address-manager.js)\<close>

text \<open>
  A \<open>Balance\<close> has one amount and one list of \<open>[txid, amount]\<close> pairs per bucket. The
  code reaches both by the bucket's name (\<open>this[state]\<close>, \<open>this.txid[state]\<close>), so both
  are functions of the bucket here.
\<close>

datatype bucket = Confirmed | Pending | Mempool

record balance =
  amounts :: "bucket \<Rightarrow> amount"
  txids :: "bucket \<Rightarrow> (string \<times> amount) list"

definition new_Balance :: "amount \<Rightarrow> amount \<Rightarrow> amount \<Rightarrow> balance" where
  \<comment> \<open>\<open>new Balance(confirmed, pending, mempool)\<close>: no \<open>txid\<close> argument, three empty lists.\<close>
  "new_Balance c p m =
     \<lparr>amounts = (\<lambda>s. case s of Confirmed \<Rightarrow> c | Pending \<Rightarrow> p | Mempool \<Rightarrow> m),
      txids = (\<lambda>s. [])\<rparr>"

definition addBalance :: "bucket \<Rightarrow> amount \<Rightarrow> balance \<Rightarrow> balance" where
  "addBalance s a B = B\<lparr>amounts := (amounts B)(s := amounts B s + a)\<rparr>"

definition minusBalance :: "bucket \<Rightarrow> amount \<Rightarrow> balance \<Rightarrow> balance" where
  "minusBalance s a B = B\<lparr>amounts := (amounts B)(s := amounts B s - a)\<rparr>"

text \<open>
  The callback of \<open>filter\<close> in \<open>addTxid\<close> has a side effect: for every pair whose txid is
  the one being added it calls \<open>minusBalance(state, amount)\<close>, where \<open>state\<close> is the bucket
  of the loop and \<open>amount\<close> is the argument of \<open>addTxid\<close> (the callback binds only the
  first component of the pair). \<open>filterTxid\<close> is that pass over one list, threading the
  balance.
\<close>

fun filterTxid :: "bucket \<Rightarrow> string \<Rightarrow> amount \<Rightarrow> (string \<times> amount) list \<Rightarrow> balance
    \<Rightarrow> (string \<times> amount) list \<times> balance" where
  "filterTxid s t a [] B = ([], B)"
| "filterTxid s t a (p # ps) B =
     (if fst p = t then filterTxid s t a ps (minusBalance s a B)
      else (case filterTxid s t a ps B of (ks, B') \<Rightarrow> (p # ks, B')))"

definition sweepBucket :: "string \<Rightarrow> amount \<Rightarrow> balance \<Rightarrow> bucket \<Rightarrow> balance" where
  \<comment> \<open>One round of \<open>for (const state in this.txid)\<close>: the filtered list replaces the old one.\<close>
  "sweepBucket t a B s =
     (case filterTxid s t a (txids B s) B of
        (ks, B') \<Rightarrow> B'\<lparr>txids := (txids B')(s := ks)\<rparr>)"

definition addTxid :: "bucket \<Rightarrow> string \<Rightarrow> amount \<Rightarrow> balance \<Rightarrow> balance" where
  "addTxid state t a B =
     (let B1 = foldl (sweepBucket t a) B [Confirmed, Pending, Mempool];
          B2 = addBalance state a B1
      in B2\<lparr>txids := (txids B2)(state := txids B2 state @ [(t, a)])\<rparr>)"

record formatted_balance =
  f_confirmed :: amount
  f_pending :: amount
  f_mempool :: amount
  consolidated :: amount

definition formatted :: "balance \<Rightarrow> formatted_balance" where
  "formatted B =
     \<lparr>f_confirmed = amounts B Confirmed, f_pending = amounts B Pending,
      f_mempool = amounts B Mempool,
      consolidated = amounts B Confirmed + amounts B Pending + amounts B Mempool\<rparr>"

fun addTxids :: "(bucket \<times> string \<times> amount) list \<Rightarrow> balance \<Rightarrow> balance" where
  \<comment> \<open>A run of \<open>addTxid\<close> calls on one \<open>Balance\<close>, first call first.\<close>
  "addTxids [] B = B"
| "addTxids ((s, t, a) # cs) B = addTxids cs (addTxid s t a B)"

fun occurrences :: "string \<Rightarrow> (string \<times> amount) list \<Rightarrow> nat" where
  \<comment> \<open>How many pairs of a list carry the txid.\<close>
  "occurrences t [] = 0"
| "occurrences t (p # ps) = (if fst p = t then Suc (occurrences t ps) else occurrences t ps)"

definition recorded :: "string \<Rightarrow> balance \<Rightarrow> nat" where
  "recorded t B =
     occurrences t (txids B Confirmed) + occurrences t (txids B Pending)
       + occurrences t (txids B Mempool)"

text \<open>
  \<open>addTxid\<close> as the specification words it, for comparison with the code: every earlier
  record of the txid leaves its bucket and \<^emph>\<open>the record's own amount\<close> is subtracted from
  that bucket; then the new amount is added to the target bucket and the pair is appended.
\<close>

definition removeRecords :: "string \<Rightarrow> balance \<Rightarrow> bucket \<Rightarrow> balance" where
  "removeRecords t B s =
     B\<lparr>amounts := (amounts B)
          (s := amounts B s - sum_list (map snd (filter (\<lambda>p. fst p = t) (txids B s)))),
       txids := (txids B)(s := filter (\<lambda>p. fst p \<noteq> t) (txids B s))\<rparr>"

definition addTxid_spec :: "bucket \<Rightarrow> string \<Rightarrow> amount \<Rightarrow> balance \<Rightarrow> balance" where
  "addTxid_spec b t a B =
     (let B1 = foldl (removeRecords t) B [Confirmed, Pending, Mempool]
      in B1\<lparr>amounts := (amounts B1)(b := amounts B1 b + a),
            txids := (txids B1)(b := txids B1 b @ [(t, a)])\<rparr>)"

definition same_amount :: "string \<Rightarrow> amount \<Rightarrow> balance \<Rightarrow> bool" where
  \<comment> \<open>Every record of the txid, in whichever bucket, carries this amount.\<close>
  "same_amount t a B =
     list_all (\<lambda>s. list_all (\<lambda>p. fst p \<noteq> t \<or> snd p = a) (txids B s))
       [Confirmed, Pending, Mempool]"

section \<open>Transaction history index (address-manager.js)\<close>

text \<open>
  The history store is a key-value store with string keys. \<open>storeTx\<close> builds its keys with
  template literals, so the height is rendered in decimal: \<open>num_str\<close> is that rendering
  for integers (a leading minus sign for negative ones, as JavaScript prints them).
\<close>

definition digit_char :: "nat \<Rightarrow> char" where
  "digit_char d = ''0123456789'' ! d"

function digits :: "nat \<Rightarrow> string" where
  "digits n = (if n < 10 then [digit_char n] else digits (n div 10) @ [digit_char (n mod 10)])"
  by pat_completeness auto
termination
  by (relation "measure (\<lambda>n. n)") auto

declare digits.simps [simp del]

definition num_str :: "int \<Rightarrow> string" where
  "num_str i = (if i < 0 then CHR ''-'' # digits (nat (- i)) else digits (nat i))"

record txView =
  tx_txid :: string
  tx_height :: int
  tx_fee :: amount

datatype hvalue = TxEntry txView | HeightEntry int

type_synonym kvstore = "string \<rightharpoonup> hvalue"

record addressManager =
  history :: kvstore

definition ikey :: "int \<Rightarrow> string \<Rightarrow> string" where
  \<comment> \<open>\<open>`i:${height}:${txid}`\<close>\<close>
  "ikey h t = ''i:'' @ num_str h @ '':'' @ t"

definition txkey :: "string \<Rightarrow> string" where
  \<comment> \<open>\<open>`tx:${txid}`\<close>\<close>
  "txkey t = ''tx:'' @ t"

definition getHeight :: "string \<Rightarrow> addressManager \<Rightarrow> hvalue option" where
  "getHeight t am = history am (txkey t)"

definition storeTx :: "txView \<Rightarrow> addressManager \<Rightarrow> addressManager" where
  "storeTx tx am =
     (let H1 = (history am)(ikey 0 (tx_txid tx) := None);
          H2 = H1(ikey (tx_height tx - 1) (tx_txid tx) := None);
          H3 = H2(ikey (tx_height tx) (tx_txid tx) \<mapsto> TxEntry tx);
          H4 = H3(txkey (tx_txid tx) \<mapsto> HeightEntry (tx_height tx))
      in am\<lparr>history := H4\<rparr>)"

section \<open>Block reward (electrum.js)\<close>

definition getBlockReward :: "int \<Rightarrow> amount" where
  \<comment> \<open>\<open>Math.floor(height / halvingInterval)\<close> is \<open>div\<close> on integers, which rounds down.\<close>
  "getBlockReward h =
     (let initialReward = 50 * 100000000;
          halvingInterval = 210000;
          halvings = h div halvingInterval;
          reward = initialReward / bn_pow 2 halvings
      in reward)"

record txInput =
  prev_txid :: string
  prev_index :: nat
  prev_tx_height :: int
  in_txid :: string
  in_address :: string
  out_type :: nat
  in_value :: amount

definition coinbaseInput :: "int \<Rightarrow> string \<Rightarrow> txInput" where
  \<comment> \<open>The branch \<open>if (vin.coinbase)\<close> of \<open>getTransaction\<close>, for a transaction at height \<open>h\<close>.\<close>
  "coinbaseInput h cb =
     \<lparr>prev_txid = cb @ ''00000000'', prev_index = 0, prev_tx_height = h - 1,
      in_txid = cb, in_address = cb, out_type = 0, in_value = getBlockReward (h - 1)\<rparr>"

section \<open>Request cache (electrum.js)\<close>

text \<open>
  A raw transaction as the server returns it, with the two fields the provider adds:
  \<open>height\<close> (written by \<open>_procTxHeight\<close>) and \<open>expiry\<close>. A field that is absent is
  \<open>None\<close>.
\<close>

record rawTx =
  raw_txid :: string
  confirmations :: "int option"
  raw_height :: "int option"
  raw_expiry :: "int option"

text \<open>
  The cache keeps its entries and its index in one store: an entry under the txid, as the
  pair \<open>[value, expiry]\<close>, and the list of inserted keys under \<open>cache_index\<close>. A txid is
  64 hexadecimal digits and never the string \<open>cache_index\<close>, so the two are separate
  fields here. \<open>max_session_size\<close> is the property \<open>_max_session_size\<close> that \<open>set\<close>
  reads: no code assigns it, so it is \<open>undefined\<close> (\<open>None\<close>) in every cache the constructor
  builds.
\<close>

record requestCache =
  cache_entries :: "string \<rightharpoonup> rawTx \<times> int"
  cache_index :: "string list option"
  cache_expiry :: int
  max_cache_size :: nat
  cache_size :: nat
  max_session_size :: "nat option"

record cacheConfig =
  cfg_cache_timeout :: "int option"
  cfg_max_cache_size :: "nat option"

definition new_RequestCache :: "cacheConfig \<Rightarrow> requestCache" where
  \<comment> \<open>\<open>x || d\<close> takes the default when \<open>x\<close> is absent or zero. The store starts empty.\<close>
  "new_RequestCache cfg =
     \<lparr>cache_entries = Map.empty,
      cache_index = None,
      cache_expiry = (case cfg_cache_timeout cfg of None \<Rightarrow> 300000
                      | Some t \<Rightarrow> if t = 0 then 300000 else t),
      max_cache_size = (case cfg_max_cache_size cfg of None \<Rightarrow> 10000
                        | Some n \<Rightarrow> if n = 0 then 10000 else n),
      cache_size = 0,
      max_session_size = None\<rparr>"

definition js_ge :: "nat \<Rightarrow> nat option \<Rightarrow> bool" where
  \<comment> \<open>\<open>a >= b\<close> where \<open>b\<close> may be \<open>undefined\<close>: a comparison with \<open>undefined\<close> is false.\<close>
  "js_ge a b = (case b of None \<Rightarrow> False | Some n \<Rightarrow> n \<le> a)"

definition getCacheIndex :: "requestCache \<Rightarrow> string list" where
  "getCacheIndex c = (case cache_index c of None \<Rightarrow> [] | Some ix \<Rightarrow> ix)"

definition removeOldest :: "requestCache \<Rightarrow> requestCache" where
  \<comment> \<open>\<open>index.shift()\<close> of an empty index is \<open>undefined\<close>, and deleting that key removes nothing.\<close>
  "removeOldest c =
     (case getCacheIndex c of
        [] \<Rightarrow> c\<lparr>cache_index := Some []\<rparr>
      | k # ix \<Rightarrow> c\<lparr>cache_entries := (cache_entries c)(k := None), cache_index := Some ix\<rparr>)"

definition size_setter :: "nat \<Rightarrow> requestCache \<Rightarrow> requestCache" where
  \<comment> \<open>\<open>set size (val) { return null }\<close>: the assignment \<open>this.size = index.length\<close> changes nothing.\<close>
  "size_setter val c = c"

definition cache_set :: "string \<Rightarrow> rawTx \<Rightarrow> int \<Rightarrow> requestCache \<Rightarrow> requestCache" where
  \<comment> \<open>\<open>set(key, value)\<close>; the third argument is the clock, \<open>Date.now()\<close>.\<close>
  "cache_set key v now c =
     (let c1 = (if js_ge (cache_size c) (max_session_size c) then removeOldest c else c);
          data = (case raw_expiry v of
                    None \<Rightarrow> (v, now + cache_expiry c1)
                  | Some e \<Rightarrow> if e = 0 then (v, now + cache_expiry c1) else (v, e));
          ix = getCacheIndex c1 @ [key];
          c2 = c1\<lparr>cache_index := Some ix\<rparr>;
          c3 = size_setter (length ix) c2
      in c3\<lparr>cache_entries := (cache_entries c3)(key \<mapsto> data)\<rparr>)"

definition cache_get :: "string \<Rightarrow> requestCache \<Rightarrow> rawTx option" where
  \<comment> \<open>\<open>data ? data[0] : null\<close>\<close>
  "cache_get key c = (case cache_entries c key of None \<Rightarrow> None | Some d \<Rightarrow> Some (fst d))"

fun cache_sets :: "(string \<times> rawTx) list \<Rightarrow> int \<Rightarrow> requestCache \<Rightarrow> requestCache" where
  \<comment> \<open>A run of \<open>set\<close> calls, first call first.\<close>
  "cache_sets [] now c = c"
| "cache_sets ((k, v) # kvs) now c = cache_sets kvs now (cache_set k v now c)"

section \<open>Transport and provider (electrum.js)\<close>

text \<open>
  JSON values, with \<open>undefined\<close> for a field that a frame does not carry. Numbers are
  integers here; the other falsy number, \<open>NaN\<close>, cannot come out of \<open>JSON.parse\<close>.
\<close>

datatype jsval =
    Undefined
  | Null
  | Bool bool
  | Num int
  | Str string
  | Arr "jsval list"
  | Obj "(string \<times> jsval) list"

fun truthy :: "jsval \<Rightarrow> bool" where
  "truthy Undefined = False"
| "truthy Null = False"
| "truthy (Bool b) = b"
| "truthy (Num n) = (n \<noteq> 0)"
| "truthy (Str s) = (s \<noteq> [])"
| "truthy (Arr xs) = True"
| "truthy (Obj fs) = True"

definition js_or :: "jsval \<Rightarrow> jsval \<Rightarrow> jsval" where
  \<comment> \<open>\<open>a || b\<close>\<close>
  "js_or a b = (if truthy a then a else b)"

fun str_includes :: "string \<Rightarrow> string \<Rightarrow> bool" where
  \<comment> \<open>\<open>s.includes(p)\<close> on strings\<close>
  "str_includes [] p = (p = [])"
| "str_includes (c # cs) p = (take (length p) (c # cs) = p \<or> str_includes cs p)"

text \<open>
  A frame either fails to parse or is an object with the fields the handler reads. The
  pending table maps a request id to the method of the request; the callbacks \<open>resolve\<close>
  and \<open>reject\<close> stored with it belong to the caller, so calling them is recorded as an
  outcome for that id. Listeners of emitted events are outside the handler.
\<close>

record response =
  resp_id :: jsval
  resp_method :: "string option"
  resp_params :: "jsval list"
  resp_result :: jsval
  resp_error :: jsval

datatype frame = Malformed | Parsed response

datatype outcome =
    Resolved jsval jsval
  | Rejected jsval jsval string
  | Emitted string "jsval list"
  | RequestError

record transport =
  requests :: "jsval \<rightharpoonup> string"
  outcomes :: "outcome list"

definition handleReply :: "response \<Rightarrow> transport \<Rightarrow> transport" where
  \<comment> \<open>\<open>_handleResponse\<close> from \<open>const _resp = this.requests.get(resp.id)\<close> on.\<close>
  "handleReply resp tr =
     (let pending = requests tr (resp_id resp)
      in if truthy (resp_error resp)
         then (case pending of
                 None \<Rightarrow> tr
               | Some m \<Rightarrow>
                   tr\<lparr>outcomes := outcomes tr @ [Rejected (resp_id resp) (resp_error resp) m]\<rparr>)
              \<lparr>requests := (requests tr)(resp_id resp := None)\<rparr>
         else (case pending of
                 None \<Rightarrow> tr\<lparr>outcomes := outcomes tr @ [RequestError]\<rparr>
               | Some m \<Rightarrow>
                   (let isNull = (resp_result resp = Null);
                        v = (if isNull then Null else js_or (resp_result resp) (resp_error resp))
                    in tr\<lparr>outcomes := outcomes tr @ [Resolved (resp_id resp) v],
                          requests := (requests tr)(resp_id resp := None)\<rparr>)))"

definition handleResponse :: "frame \<Rightarrow> transport \<Rightarrow> transport" where
  "handleResponse f tr =
     (case f of
        Malformed \<Rightarrow> tr\<lparr>outcomes := outcomes tr @ [RequestError]\<rparr>
      | Parsed resp \<Rightarrow>
          (case resp_method resp of
             None \<Rightarrow> handleReply resp tr
           | Some m \<Rightarrow>
               if str_includes m ''.subscribe''
               then tr\<lparr>outcomes := outcomes tr @ [Emitted m (resp_params resp)],
                       requests := (requests tr)(resp_id resp := None)\<rparr>
               else handleReply resp tr))"

text \<open>
  The provider's side of a transaction fetch. A round trip of \<open>_getTransaction\<close> is a
  function from the txid to the server's answer: an RPC error, which rejects the request,
  or the raw transaction. The log \<open>fetched\<close> lists the txids requested from the server.
\<close>

datatype rpc_error = RpcError string

record electrum =
  cache :: requestCache
  block_height :: int
  fetched :: "string list"

definition procTxHeight :: "electrum \<Rightarrow> rawTx \<Rightarrow> rawTx" where
  \<comment> \<open>\<open>!tx.confirmations\<close> holds for an absent and for a zero count.\<close>
  "procTxHeight e tx =
     (case confirmations tx of
        None \<Rightarrow> tx\<lparr>raw_height := Some 0\<rparr>
      | Some n \<Rightarrow>
          if n = 0 then tx\<lparr>raw_height := Some 0\<rparr>
          else tx\<lparr>raw_height := Some (block_height e - (n - 1))\<rparr>)"

definition fetchTx :: "(string \<Rightarrow> rpc_error + rawTx) \<Rightarrow> string \<Rightarrow> int \<Rightarrow> electrum
    \<Rightarrow> (rpc_error + rawTx) \<times> electrum" where
  \<comment> \<open>The three lines both fetching paths of \<open>_txGet\<close> share: request, height, \<open>cache.set\<close>.\<close>
  "fetchTx server txid now e =
     (let e1 = e\<lparr>fetched := fetched e @ [txid]\<rparr>
      in case server txid of
           Inl err \<Rightarrow> (Inl err, e1)
         | Inr raw \<Rightarrow>
             (let data = procTxHeight e1 raw
              in (Inr data, e1\<lparr>cache := cache_set txid data now (cache e1)\<rparr>)))"

definition txGet :: "(string \<Rightarrow> rpc_error + rawTx) \<Rightarrow> string \<Rightarrow> bool option \<Rightarrow> int \<Rightarrow> electrum
    \<Rightarrow> (rpc_error + rawTx) \<times> electrum" where
  \<comment> \<open>\<open>opts.cache\<close> is \<open>None\<close> when the option is not given; only \<open>false\<close> itself forces a fetch.\<close>
  "txGet server txid opts_cache now e =
     (if opts_cache = Some False then fetchTx server txid now e
      else (case cache_get txid (cache e) of
              None \<Rightarrow> fetchTx server txid now e
            | Some cacheValue \<Rightarrow>
                if raw_height cacheValue \<noteq> Some 0 then (Inr cacheValue, e)
                else fetchTx server txid now e))"

section \<open>Sync manager\<close>

text \<open>
  Modelled from the spec: \<open>sync-manager.js\<close> is not among the sources. The transaction
  builder calls three of its operations. \<open>utxoForAmount\<close> takes the unlocked UTXOs in
  their stored order until their sum reaches the target plus the dust margin, locks the
  ones it took and returns them with their sum, or fails with \<open>Insufficient\<close> when all
  unlocked UTXOs together do not reach it. \<open>unlockUtxo(success)\<close> removes the locked
  UTXOs from the available set when \<open>success\<close> holds and returns them to it otherwise;
  either way no lock remains. \<open>addSentTx\<close> files the broadcast record. Every call is
  written to the log \<open>calls\<close>. Amounts are integers, in satoshis.
\<close>

record utxo =
  utxo_txid :: string
  utxo_index :: nat
  utxo_value :: int
  utxo_address :: string

record utxoSet =
  us_utxo :: "utxo list"
  us_total :: int

record sentTx =
  sent_to :: string
  sent_changeAddress :: string
  sent_fee :: int
  sent_totalSpent :: int
  sent_feeRate :: int
  sent_vSize :: nat
  sent_utxo :: "utxo list"
  sent_vout :: "(string \<times> int) list"

datatype sm_call = UtxoForAmount int | UnlockUtxo bool | AddSentTx

record syncManager =
  utxos :: "utxo list"
  lockedUtxos :: "utxo list"
  dust_margin :: int
  outgoings :: "sentTx list"
  calls :: "sm_call list"

datatype tx_error =
    InvalidFee "int option"
  | DustAmount int
  | Insufficient
  | NoLastAttempt
  | OutputsExceedInputs
  | FeeRateTooHigh
  | SimulateFailed tx_error
  | SendFailed tx_error
  | BroadcastThrew
  | BroadcastFailed string

fun pick :: "int \<Rightarrow> int \<Rightarrow> utxo list \<Rightarrow> utxo list option" where
  "pick goal acc [] = (if goal \<le> acc then Some [] else None)"
| "pick goal acc (u # us) =
     (if goal \<le> acc then Some []
      else (case pick goal (acc + utxo_value u) us of
              None \<Rightarrow> None
            | Some sel \<Rightarrow> Some (u # sel)))"

definition utxoForAmount :: "int \<Rightarrow> syncManager \<Rightarrow> (tx_error + utxoSet) \<times> syncManager" where
  "utxoForAmount target sm =
     (let sm1 = sm\<lparr>calls := calls sm @ [UtxoForAmount target]\<rparr>;
          candidates = filter (\<lambda>u. u \<notin> set (lockedUtxos sm1)) (utxos sm1)
      in case pick (target + dust_margin sm1) 0 candidates of
           None \<Rightarrow> (Inl Insufficient, sm1)
         | Some sel \<Rightarrow>
             (Inr \<lparr>us_utxo = sel, us_total = sum_list (map utxo_value sel)\<rparr>,
              sm1\<lparr>lockedUtxos := lockedUtxos sm1 @ sel\<rparr>))"

definition unlockUtxo :: "bool \<Rightarrow> syncManager \<Rightarrow> syncManager" where
  "unlockUtxo success sm =
     (let sm1 = sm\<lparr>calls := calls sm @ [UnlockUtxo success]\<rparr>
      in if success
         then sm1\<lparr>utxos := filter (\<lambda>u. u \<notin> set (lockedUtxos sm1)) (utxos sm1), lockedUtxos := []\<rparr>
         else sm1\<lparr>lockedUtxos := []\<rparr>)"

definition addSentTx :: "sentTx \<Rightarrow> syncManager \<Rightarrow> syncManager" where
  "addSentTx tx sm = sm\<lparr>outgoings := outgoings sm @ [tx], calls := calls sm @ [AddSentTx]\<rparr>"

section \<open>Transaction builder (transaction.js)\<close>

text \<open>
  The builder holds the fee limit, the sync manager and the list \<open>_txData\<close> of the
  transactions it has assembled. Signing and serialisation belong to the PSBT library
  (\<open>bitcoinjs-lib\<close>, pinned at 6.1.5 by \<open>package.json\<close>). The virtual size of a signed
  transaction is the parameter \<open>vsz\<close> here, a function of the number of inputs and of
  outputs. The answer of the provider to a broadcast is a thrown error (a rejected request)
  or a value, of which the code reads the property \<open>message\<close>.

  \<open>psbt.extractTransaction()\<close> checks the fee before it hands the transaction out. The
  fee is the sum of the input values minus the sum of the output values; a negative fee
  throws \<open>Outputs are spending more than Inputs\<close>. The fee rate is
  \<open>Math.floor(fee / virtualSize)\<close>, and a rate that reaches the library's
  \<open>maximumFeeRate\<close> throws a warning as an error. The builder constructs the PSBT with the
  network only and calls \<open>extractTransaction()\<close> without an argument, so the default
  ceiling of 5000 satoshis per virtual byte applies. Addresses and keys are taken to be
  well formed: the library's failures on an undecodable address or an unsignable input are
  not part of the model.
\<close>

record txConfig =
  cfg_max_fee_limit :: "int option"
  cfg_syncManager :: syncManager

record transaction =
  max_fee_limit :: "int option"
  tx_syncManager :: syncManager
  txData :: "sentTx list"

record sendRequest =
  req_address :: string
  req_amount :: int
  req_fee :: "int option"

record txEntry =
  entry_to_address :: "string list"
  entry_fee :: int
  entry_fee_rate :: int
  entry_amount :: int
  entry_from_address :: "string list"

datatype broadcast_reply = Throws | Reply "string option"

definition DUST_LIMIT :: int where
  "DUST_LIMIT = 546"

definition maximumFeeRate :: int where
  \<comment> \<open>the default of \<open>bitcoinjs-lib\<close>, in satoshis per virtual byte\<close>
  "maximumFeeRate = 5000"

definition psbt_fee_rate :: "int \<Rightarrow> nat \<Rightarrow> int" where
  \<comment> \<open>\<open>Math.floor(fee / bytes)\<close>; a transaction has a positive virtual size.\<close>
  "psbt_fee_rate fee bytes = fee div int bytes"

definition fee_rate_too_high :: "int \<Rightarrow> nat \<Rightarrow> bool" where
  \<comment> \<open>\<open>feeRate >= maximumFeeRate\<close>; over a size of zero a positive fee gives \<open>Infinity\<close>.\<close>
  "fee_rate_too_high fee bytes =
     (if bytes = 0 then 0 < fee else maximumFeeRate \<le> psbt_fee_rate fee bytes)"

definition num_or :: "int \<Rightarrow> int option \<Rightarrow> int option" where
  \<comment> \<open>\<open>a || b\<close> for a number \<open>a\<close>: \<open>b\<close> is taken only when \<open>a\<close> is zero.\<close>
  "num_or a b = (if a \<noteq> 0 then Some a else b)"

definition new_Transaction :: "txConfig \<Rightarrow> transaction" where
  \<comment> \<open>\<open>this._max_fee_limit = 100000 || config.max_fee_limit\<close>\<close>
  "new_Transaction cfg =
     \<lparr>max_fee_limit = num_or 100000 (cfg_max_fee_limit cfg),
      tx_syncManager = cfg_syncManager cfg,
      txData = []\<rparr>"

definition getLastAttempt :: "transaction \<Rightarrow> sentTx option" where
  \<comment> \<open>\<open>this._txData.at(-1)\<close>, \<open>undefined\<close> on an empty list\<close>
  "getLastAttempt T = (if txData T = [] then None else Some (last (txData T)))"

definition invalid_fee :: "int option \<Rightarrow> int option \<Rightarrow> bool" where
  \<comment> \<open>\<open>!fee || fee <= 0 || fee > this._max_fee_limit\<close>; a comparison with \<open>undefined\<close> is false.\<close>
  "invalid_fee fee limit =
     (case fee of
        None \<Rightarrow> True
      | Some f \<Rightarrow> f = 0 \<or> f \<le> 0 \<or> (case limit of None \<Rightarrow> False | Some l \<Rightarrow> l < f))"

text \<open>
  \<open>_generateRawTx\<close> calls itself after taking more UTXOs when the change is below the
  dust limit. Nothing in the function bounds the number of rounds, so the model counts
  them down: with no rounds left the result is \<open>None\<close>.
\<close>

fun generateRawTx :: "nat \<Rightarrow> (nat \<Rightarrow> nat \<Rightarrow> nat) \<Rightarrow> utxoSet \<Rightarrow> int \<Rightarrow> int \<Rightarrow> string \<Rightarrow> string
    \<Rightarrow> nat \<Rightarrow> transaction \<Rightarrow> ((tx_error + txEntry) \<times> transaction) option" where
  "generateRawTx 0 vsz utxoSet fee sendAmount address changeAddr weight T = None"
| "generateRawTx (Suc n) vsz utxoSet fee sendAmount address changeAddr weight T =
     (if sendAmount \<le> DUST_LIMIT then Some (Inl (DustAmount sendAmount), T)
      else
        (let totalFee = fee * int weight;
             change = us_total utxoSet - sendAmount - totalFee
         in if change < DUST_LIMIT
            then
              (let T1 = T\<lparr>tx_syncManager := unlockUtxo False (tx_syncManager T)\<rparr>;
                   newAmount = us_total utxoSet + fee
               in case utxoForAmount newAmount (tx_syncManager T1) of
                    (Inl err, sm) \<Rightarrow> Some (Inl err, T1\<lparr>tx_syncManager := sm\<rparr>)
                  | (Inr newUtxoSet, sm) \<Rightarrow>
                      generateRawTx n vsz newUtxoSet fee sendAmount address changeAddr weight
                        (T1\<lparr>tx_syncManager := sm\<rparr>))
            else
              (let vout = (address, sendAmount) #
                     (if change \<noteq> 0 then [(changeAddr, change)] else []);
                   inputAmount = sum_list (map utxo_value (us_utxo utxoSet));
                   outputAmount = sum_list (map snd vout);
                   psbtFee = inputAmount - outputAmount;
                   vSize = vsz (length (us_utxo utxoSet)) (length vout)
               in if psbtFee < 0 then Some (Inl OutputsExceedInputs, T)
                  else if fee_rate_too_high psbtFee vSize then Some (Inl FeeRateTooHigh, T)
                  else
                    (let tx = \<lparr>sent_to = address, sent_changeAddress = changeAddr,
                               sent_fee = totalFee, sent_totalSpent = totalFee + sendAmount,
                               sent_feeRate = psbt_fee_rate psbtFee vSize,
                               sent_vSize = vSize,
                               sent_utxo = us_utxo utxoSet, sent_vout = vout\<rparr>;
                         entry = \<lparr>entry_to_address = map fst vout, entry_fee = sent_fee tx,
                                  entry_fee_rate = sent_feeRate tx,
                                  entry_amount = sendAmount,
                                  entry_from_address = map utxo_address (us_utxo utxoSet)\<rparr>
                     in Some (Inr entry, T\<lparr>txData := txData T @ [tx]\<rparr>)))))"

definition createTransaction :: "nat \<Rightarrow> (nat \<Rightarrow> nat \<Rightarrow> nat) \<Rightarrow> string \<Rightarrow> sendRequest \<Rightarrow> transaction
    \<Rightarrow> ((tx_error + txEntry) \<times> transaction) option" where
  \<comment> \<open>\<open>changeAddr\<close> is what \<open>_getInternalAddress()\<close> returns.\<close>
  "createTransaction n vsz changeAddr req T =
     (if invalid_fee (req_fee req) (max_fee_limit T) then Some (Inl (InvalidFee (req_fee req)), T)
      else
        (let fee = (case req_fee req of None \<Rightarrow> 0 | Some f \<Rightarrow> f);
             sendAmount = req_amount req
         in case utxoForAmount (req_amount req) (tx_syncManager T) of
              (Inl err, sm) \<Rightarrow> Some (Inl err, T\<lparr>tx_syncManager := sm\<rparr>)
            | (Inr utxoSet, sm) \<Rightarrow>
                (case generateRawTx n vsz utxoSet fee sendAmount (req_address req) changeAddr 1
                        (T\<lparr>tx_syncManager := sm\<rparr>) of
                   None \<Rightarrow> None
                 | Some (Inl err, T1) \<Rightarrow> Some (Inl (SimulateFailed err), T1)
                 | Some (Inr probe, T1) \<Rightarrow>
                     (case getLastAttempt T1 of
                        None \<Rightarrow> Some (Inl (SendFailed NoLastAttempt), T1)
                      | Some attempt \<Rightarrow>
                          (case generateRawTx n vsz utxoSet fee sendAmount (req_address req)
                                  changeAddr (sent_vSize attempt) T1 of
                             None \<Rightarrow> None
                           | Some (Inl err, T2) \<Rightarrow> Some (Inl (SendFailed err), T2)
                           | Some (Inr finalTx, T2) \<Rightarrow>
                               (case getLastAttempt T2 of
                                  None \<Rightarrow> Some (Inl NoLastAttempt, T2)
                                | Some l \<Rightarrow>
                                    Some (Inr finalTx,
                                      T2\<lparr>tx_syncManager := addSentTx l (tx_syncManager T2)\<rparr>)))))))"

definition first_line :: "string \<Rightarrow> string" where
  \<comment> \<open>\<open>message.split('\n').shift()\<close>\<close>
  "first_line s = takeWhile (\<lambda>c. c \<noteq> CHR 0x0A) s"

definition send :: "nat \<Rightarrow> (nat \<Rightarrow> nat \<Rightarrow> nat) \<Rightarrow> (sentTx \<Rightarrow> broadcast_reply) \<Rightarrow> string \<Rightarrow> sendRequest
    \<Rightarrow> transaction \<Rightarrow> ((tx_error + txEntry) \<times> transaction) option" where
  "send n vsz provider changeAddr opts T =
     (case createTransaction n vsz changeAddr opts T of
        None \<Rightarrow> None
      | Some (Inl err, T1) \<Rightarrow> Some (Inl err, T1)
      | Some (Inr tx, T1) \<Rightarrow>
          (case getLastAttempt T1 of
             None \<Rightarrow> Some (Inl BroadcastThrew, T1)
           | Some attempt \<Rightarrow>
               (case provider attempt of
                  Throws \<Rightarrow> Some (Inl BroadcastThrew, T1)
                | Reply message \<Rightarrow>
                    (case message of
                       None \<Rightarrow> Some (Inr tx, T1\<lparr>tx_syncManager := unlockUtxo True (tx_syncManager T1)\<rparr>)
                     | Some m \<Rightarrow>
                         if m \<noteq> []
                         then Some (Inl (BroadcastFailed (first_line m)),
                                T1\<lparr>tx_syncManager := unlockUtxo False (tx_syncManager T1)\<rparr>)
                         else Some (Inr tx,
                                T1\<lparr>tx_syncManager := unlockUtxo True (tx_syncManager T1)\<rparr>)))))"

section \<open>Example states\<close>

text \<open>
  A wallet whose sync manager holds one unspent output of 10,000 satoshis, nothing locked,
  and a builder freshly constructed on it.
\<close>

definition one_utxo :: utxo where
  "one_utxo =
     \<lparr>utxo_txid = ''f00d'', utxo_index = 0, utxo_value = 10000, utxo_address = ''mine''\<rparr>"

definition one_utxo_wallet :: transaction where
  "one_utxo_wallet =
     new_Transaction
       \<lparr>cfg_max_fee_limit = None,
        cfg_syncManager =
          \<lparr>utxos = [one_utxo], lockedUtxos = [], dust_margin = 0, outgoings = [], calls = []\<rparr>\<rparr>"

text \<open>
  The same with one unspent output of one coin (100,000,000 satoshis), enough to pay any
  fee the builder's own limit admits on a transaction of 110 virtual bytes.
\<close>

definition vsize_110 :: "nat \<Rightarrow> nat \<Rightarrow> nat" where
  \<comment> \<open>A library under which every transaction has 110 virtual bytes.\<close>
  "vsize_110 ins outs = 110"

definition one_coin :: utxo where
  "one_coin =
     \<lparr>utxo_txid = ''c01d'', utxo_index = 0, utxo_value = 100000000, utxo_address = ''mine''\<rparr>"

definition one_coin_wallet :: transaction where
  "one_coin_wallet =
     new_Transaction
       \<lparr>cfg_max_fee_limit = None,
        cfg_syncManager =
          \<lparr>utxos = [one_coin], lockedUtxos = [], dust_margin = 0, outgoings = [], calls = []\<rparr>\<rparr>"

section \<open>Properties of the block counter\<close>

lemma setBlock_block_mono: "block bc \<le> block (snd (setBlock nb bc))"
  by (simp add: setBlock_def Let_def)

lemma setBlocks_block_mono: "block bc \<le> block (setBlocks nbs bc)"
proof (induction nbs arbitrary: bc)
  case Nil
  show ?case by (simp add: setBlocks_def)
next
  case (Cons nb nbs)
  have "block bc \<le> block (snd (setBlock nb bc))"
    by (rule setBlock_block_mono)
  also have "\<dots> \<le> block (setBlocks nbs (snd (setBlock nb bc)))"
    by (rule Cons.IH)
  finally show ?case by (simp add: setBlocks_def)
qed

text \<open>
  C8. The tracked height never decreases over any run of \<open>setBlock\<close> calls. A call with a
  height strictly below the current block is refused: it returns without a value and
  leaves the block, the persisted \<open>latest_block\<close> and the event log as they were. A call
  with a height at or above the current block returns \<open>true\<close>, sets the block to that
  height and persists it.
\<close>

theorem setBlock_monotone:
  "(height nb < block bc \<longrightarrow> setBlock nb bc = (None, bc)) \<and>
   (block bc \<le> height nb \<longrightarrow>
      fst (setBlock nb bc) = Some True \<and>
      block (snd (setBlock nb bc)) = height nb \<and>
      latest_block (snd (setBlock nb bc)) = Some (height nb)) \<and>
   block bc \<le> block (setBlocks nbs bc)"
  by (simp add: setBlock_def Let_def setBlocks_block_mono)

text \<open>
  The scenario of the specification: at block 10 a push of height 9 is refused, a push of
  height 11 advances the block.
\<close>

theorem setBlock_monotone_witness:
  "setBlock \<lparr>height = 9\<rparr> \<lparr>block = 10, latest_block = Some 10, emitted = []\<rparr>
     = (None, \<lparr>block = 10, latest_block = Some 10, emitted = []\<rparr>) \<and>
   fst (setBlock \<lparr>height = 11\<rparr> \<lparr>block = 10, latest_block = Some 10, emitted = []\<rparr>) = Some True \<and>
   block (snd (setBlock \<lparr>height = 11\<rparr> \<lparr>block = 10, latest_block = Some 10, emitted = []\<rparr>)) = 11 \<and>
   latest_block (snd (setBlock \<lparr>height = 11\<rparr> \<lparr>block = 10, latest_block = Some 10, emitted = []\<rparr>))
     = Some 11 \<and>
   (10::int) \<le> block (setBlocks [\<lparr>height = 9\<rparr>, \<lparr>height = 11\<rparr>]
                   \<lparr>block = 10, latest_block = Some 10, emitted = []\<rparr>)"
  using setBlock_monotone [of "\<lparr>height = 9\<rparr>"
          "\<lparr>block = 10, latest_block = Some 10, emitted = []\<rparr>" "[\<lparr>height = 9\<rparr>, \<lparr>height = 11\<rparr>]"]
        setBlock_monotone [of "\<lparr>height = 11\<rparr>"
          "\<lparr>block = 10, latest_block = Some 10, emitted = []\<rparr>" "[]"]
  by simp

section \<open>Properties of the balance buckets\<close>

lemma occurrences_append: "occurrences t (ps @ qs) = occurrences t ps + occurrences t qs"
  by (induction ps) simp_all

lemma occurrences_removed: "occurrences t (filter (\<lambda>p. fst p \<noteq> t) ps) = 0"
  by (induction ps) simp_all

lemma occurrences_kept:
  "u \<noteq> t \<Longrightarrow> occurrences t (filter (\<lambda>p. fst p \<noteq> u) ps) = occurrences t ps"
  by (induction ps) simp_all

lemma filterTxid_fst: "fst (filterTxid s t a ps B) = filter (\<lambda>p. fst p \<noteq> t) ps"
  by (induction ps arbitrary: B) (simp_all add: split_beta)

lemma filterTxid_amounts:
  "amounts (snd (filterTxid s t a ps B)) b =
     (if b = s then amounts B s - of_nat (occurrences t ps) * a else amounts B b)"
  by (induction ps arbitrary: B b)
     (simp_all add: minusBalance_def split_beta algebra_simps)

lemma filterTxid_txids: "txids (snd (filterTxid s t a ps B)) = txids B"
  by (induction ps arbitrary: B) (simp_all add: minusBalance_def split_beta)

lemma filterTxid_more: "balance.more (snd (filterTxid s t a ps B)) = balance.more B"
  by (induction ps arbitrary: B) (simp_all add: minusBalance_def split_beta)

lemma sweepBucket_amounts:
  "amounts (sweepBucket t a B s) b =
     (if b = s then amounts B s - of_nat (occurrences t (txids B s)) * a else amounts B b)"
  by (simp add: sweepBucket_def split_beta filterTxid_amounts)

lemma sweepBucket_txids:
  "txids (sweepBucket t a B s) b =
     (if b = s then filter (\<lambda>p. fst p \<noteq> t) (txids B s) else txids B b)"
  by (simp add: sweepBucket_def split_beta filterTxid_fst filterTxid_txids)

lemma sweepBucket_more: "balance.more (sweepBucket t a B s) = balance.more B"
  by (simp add: sweepBucket_def split_beta filterTxid_more)

lemma addTxid_txids:
  "txids (addTxid b t a B) s =
     filter (\<lambda>p. fst p \<noteq> t) (txids B s) @ (if s = b then [(t, a)] else [])"
  by (cases s; cases b)
     (simp_all add: addTxid_def Let_def addBalance_def sweepBucket_amounts sweepBucket_txids)

lemma addTxid_amounts:
  "amounts (addTxid b t a B) s =
     amounts B s - of_nat (occurrences t (txids B s)) * a + (if s = b then a else 0)"
  by (cases s; cases b)
     (simp_all add: addTxid_def Let_def addBalance_def sweepBucket_amounts sweepBucket_txids)

lemma addTxid_more: "balance.more (addTxid b t a B) = balance.more B"
  by (simp add: addTxid_def Let_def addBalance_def sweepBucket_more)

lemma occurrences_after:
  "occurrences t (txids (addTxid b t a B) s) = (if s = b then 1 else 0)"
  by (simp add: addTxid_txids occurrences_append occurrences_removed)

lemma addTxid_twice: "addTxid b t a (addTxid b t a B) = addTxid b t a B"
proof (rule balance.equality)
  show "amounts (addTxid b t a (addTxid b t a B)) = amounts (addTxid b t a B)"
  proof
    fix s
    show "amounts (addTxid b t a (addTxid b t a B)) s = amounts (addTxid b t a B) s"
      by (simp add: addTxid_amounts [of b t a "addTxid b t a B"] occurrences_after)
  qed
  show "txids (addTxid b t a (addTxid b t a B)) = txids (addTxid b t a B)"
  proof
    fix s
    show "txids (addTxid b t a (addTxid b t a B)) s = txids (addTxid b t a B) s"
      by (simp add: addTxid_txids)
  qed
  show "balance.more (addTxid b t a (addTxid b t a B)) = balance.more (addTxid b t a B)"
    by (simp add: addTxid_more)
qed

lemma recorded_addTxid: "recorded t (addTxid b u a B) = (if u = t then 1 else recorded t B)"
  by (cases b)
     (simp_all add: recorded_def addTxid_txids occurrences_append occurrences_removed
        occurrences_kept)

lemma recorded_new_Balance: "recorded t (new_Balance c p m) = 0"
  by (simp add: recorded_def new_Balance_def)

lemma recorded_addTxids: "recorded t B \<le> 1 \<Longrightarrow> recorded t (addTxids cs B) \<le> 1"
proof (induction cs arbitrary: B)
  case Nil
  then show ?case by simp
next
  case (Cons c cs)
  obtain s u a where c: "c = (s, u, a)" by (cases c)
  have "recorded t (addTxid s u a B) \<le> 1"
    using Cons.prems by (simp add: recorded_addTxid)
  then have "recorded t (addTxids cs (addTxid s u a B)) \<le> 1"
    by (rule Cons.IH)
  then show ?case
    unfolding c by simp
qed

lemma filter_absent: "occurrences t ps = 0 \<Longrightarrow> filter (\<lambda>p. fst p \<noteq> t) ps = ps"
  by (induction ps) (simp_all split: if_splits)

lemma occurrences_member: "(t, a) \<in> set ps \<Longrightarrow> 0 < occurrences t ps"
  by (induction ps) auto

text \<open>
  C2. A \<open>Balance\<close> that \<open>addTxid\<close> calls have built from a new one records every txid at
  most once over its three buckets. In every state that records \<open>t\<close> at most once, if
  \<open>t\<close> is recorded in the mempool bucket with amount \<open>a\<close>, then
  \<open>addTxid('confirmed', t, a)\<close> leaves the sum confirmed + pending + mempool unchanged:
  the mempool amount drops by \<open>a\<close>, the confirmed amount grows by \<open>a\<close>, the pending
  amount stays, and the record moves from the mempool list to the end of the confirmed
  list.
\<close>

theorem addTxid_move_preserves_sum:
  "recorded u (addTxids cs (new_Balance c p m)) \<le> 1 \<and>
   (recorded t B \<le> 1 \<and> (t, a) \<in> set (txids B Mempool) \<longrightarrow>
      consolidated (formatted (addTxid Confirmed t a B)) = consolidated (formatted B) \<and>
      amounts (addTxid Confirmed t a B) Mempool = amounts B Mempool - a \<and>
      amounts (addTxid Confirmed t a B) Confirmed = amounts B Confirmed + a \<and>
      amounts (addTxid Confirmed t a B) Pending = amounts B Pending \<and>
      txids (addTxid Confirmed t a B) Confirmed = txids B Confirmed @ [(t, a)] \<and>
      occurrences t (txids (addTxid Confirmed t a B) Mempool) = 0)"
proof (rule conjI)
  show "recorded u (addTxids cs (new_Balance c p m)) \<le> 1"
    by (rule recorded_addTxids) (simp add: recorded_new_Balance)
next
  show "recorded t B \<le> 1 \<and> (t, a) \<in> set (txids B Mempool) \<longrightarrow>
      consolidated (formatted (addTxid Confirmed t a B)) = consolidated (formatted B) \<and>
      amounts (addTxid Confirmed t a B) Mempool = amounts B Mempool - a \<and>
      amounts (addTxid Confirmed t a B) Confirmed = amounts B Confirmed + a \<and>
      amounts (addTxid Confirmed t a B) Pending = amounts B Pending \<and>
      txids (addTxid Confirmed t a B) Confirmed = txids B Confirmed @ [(t, a)] \<and>
      occurrences t (txids (addTxid Confirmed t a B) Mempool) = 0"
  proof
    assume h: "recorded t B \<le> 1 \<and> (t, a) \<in> set (txids B Mempool)"
    from h have "(t, a) \<in> set (txids B Mempool)" by (rule conjunct2)
    then have "0 < occurrences t (txids B Mempool)"
      by (rule occurrences_member)
    with h have occ: "occurrences t (txids B Mempool) = 1"
      "occurrences t (txids B Confirmed) = 0" "occurrences t (txids B Pending) = 0"
      by (simp_all add: recorded_def)
    have keep: "filter (\<lambda>p. fst p \<noteq> t) (txids B Confirmed) = txids B Confirmed"
      using occ(2) by (rule filter_absent)
    show "consolidated (formatted (addTxid Confirmed t a B)) = consolidated (formatted B) \<and>
      amounts (addTxid Confirmed t a B) Mempool = amounts B Mempool - a \<and>
      amounts (addTxid Confirmed t a B) Confirmed = amounts B Confirmed + a \<and>
      amounts (addTxid Confirmed t a B) Pending = amounts B Pending \<and>
      txids (addTxid Confirmed t a B) Confirmed = txids B Confirmed @ [(t, a)] \<and>
      occurrences t (txids (addTxid Confirmed t a B) Mempool) = 0"
      by (simp add: formatted_def addTxid_amounts addTxid_txids occ keep occurrences_removed)
  qed
qed

text \<open>
  A transaction seen in the mempool with 5 units and then confirmed: the state after
  \<open>addTxid('mempool', t1, 5)\<close> on a new balance records \<open>t1\<close> once, and the sum is 5
  before and after \<open>addTxid('confirmed', t1, 5)\<close>.
\<close>

theorem addTxid_move_preserves_sum_witness:
  "recorded ''t1'' (addTxids [(Mempool, ''t1'', 5)] (new_Balance 0 0 0)) \<le> 1 \<and>
   (''t1'', 5) \<in> set (txids (addTxids [(Mempool, ''t1'', 5)] (new_Balance 0 0 0)) Mempool) \<and>
   consolidated (formatted (addTxid Confirmed ''t1'' 5
       (addTxids [(Mempool, ''t1'', 5)] (new_Balance 0 0 0)))) = 5 \<and>
   consolidated (formatted (addTxids [(Mempool, ''t1'', 5)] (new_Balance 0 0 0))) = 5"
proof -
  let ?B = "addTxids [(Mempool, ''t1'', 5)] (new_Balance 0 0 0)"
  note r = addTxid_move_preserves_sum [of "''t1''" "[(Mempool, ''t1'', 5)]" 0 0 0 "''t1''" ?B 5]
  note once = r [THEN conjunct1]
  have m: "(''t1'', 5) \<in> set (txids ?B Mempool)"
    by (simp add: addTxid_txids new_Balance_def)
  have before: "consolidated (formatted ?B) = 5"
    by (simp add: formatted_def addTxid_amounts new_Balance_def)
  have after: "consolidated (formatted (addTxid Confirmed ''t1'' 5 ?B)) = 5"
    using r [THEN conjunct2, THEN mp, OF conjI [OF once m], THEN conjunct1] before
    by (simp only:)
  show ?thesis
    by (rule conjI [OF once conjI [OF m conjI [OF after before]]])
qed

lemma removeRecords_amounts:
  "amounts (removeRecords t B s) b =
     (if b = s
      then amounts B s - sum_list (map snd (filter (\<lambda>p. fst p = t) (txids B s)))
      else amounts B b)"
  by (simp add: removeRecords_def)

lemma removeRecords_txids:
  "txids (removeRecords t B s) b =
     (if b = s then filter (\<lambda>p. fst p \<noteq> t) (txids B s) else txids B b)"
  by (simp add: removeRecords_def)

lemma addTxid_spec_txids:
  "txids (addTxid_spec b t a B) s =
     filter (\<lambda>p. fst p \<noteq> t) (txids B s) @ (if s = b then [(t, a)] else [])"
  by (cases s; cases b)
     (simp_all add: addTxid_spec_def Let_def removeRecords_amounts removeRecords_txids)

lemma addTxid_spec_amounts:
  "amounts (addTxid_spec b t a B) s =
     amounts B s - sum_list (map snd (filter (\<lambda>p. fst p = t) (txids B s)))
       + (if s = b then a else 0)"
  by (cases s; cases b)
     (simp_all add: addTxid_spec_def Let_def removeRecords_amounts removeRecords_txids)

lemma addTxid_spec_more: "balance.more (addTxid_spec b t a B) = balance.more B"
  by (simp add: addTxid_spec_def Let_def removeRecords_def)

lemma stored_sum:
  "list_all (\<lambda>p. fst p \<noteq> t \<or> snd p = a) ps \<Longrightarrow>
     sum_list (map snd (filter (\<lambda>p. fst p = t) ps)) = of_nat (occurrences t ps) * a"
  by (induction ps) (auto simp: algebra_simps)

lemma same_amount_bucket:
  "same_amount t a B \<Longrightarrow> list_all (\<lambda>p. fst p \<noteq> t \<or> snd p = a) (txids B s)"
  by (cases s) (simp_all add: same_amount_def)

lemma addTxid_refines_spec:
  assumes "same_amount t a B"
  shows "addTxid b t a B = addTxid_spec b t a B"
proof (rule balance.equality)
  show "amounts (addTxid b t a B) = amounts (addTxid_spec b t a B)"
  proof
    fix s
    have "sum_list (map snd (filter (\<lambda>p. fst p = t) (txids B s)))
        = of_nat (occurrences t (txids B s)) * a"
      using same_amount_bucket [OF assms] by (rule stored_sum)
    then show "amounts (addTxid b t a B) s = amounts (addTxid_spec b t a B) s"
      by (simp add: addTxid_amounts addTxid_spec_amounts)
  qed
  show "txids (addTxid b t a B) = txids (addTxid_spec b t a B)"
  proof
    fix s
    show "txids (addTxid b t a B) s = txids (addTxid_spec b t a B) s"
      by (simp add: addTxid_txids addTxid_spec_txids)
  qed
  show "balance.more (addTxid b t a B) = balance.more (addTxid_spec b t a B)"
    by (simp add: addTxid_more addTxid_spec_more)
qed

text \<open>
  C3 asks that \<open>addTxid(b, t, a)\<close> removes every earlier record of \<open>t\<close> with that
  record's amount subtracted from its bucket, then adds \<open>a\<close> to bucket \<open>b\<close>, so that a
  second call changes nothing. The second call indeed changes nothing (\<open>addTxid_twice\<close>),
  and the code agrees with the wording when every stored record of \<open>t\<close> carries the amount
  of the call (\<open>addTxid_refines_spec\<close>). It does not subtract the record's amount, though:
  the callback of \<open>filter\<close> binds only the txid of the pair and subtracts the amount passed
  to the call. After \<open>addTxid('mempool', t1, 5)\<close> on a new balance, the call
  \<open>addTxid('confirmed', t1, 7)\<close> leaves \<open>-2\<close> in the mempool bucket and a sum of 5, where
  subtracting the record's own amount leaves 0 in the mempool bucket and a sum of 7.
\<close>

theorem addTxid_stale_amount:
  "amounts (addTxid Confirmed ''t1'' 7 (addTxid Mempool ''t1'' 5 (new_Balance 0 0 0))) Mempool = - 2 \<and>
   amounts (addTxid Confirmed ''t1'' 7 (addTxid Mempool ''t1'' 5 (new_Balance 0 0 0))) Confirmed = 7 \<and>
   consolidated (formatted
     (addTxid Confirmed ''t1'' 7 (addTxid Mempool ''t1'' 5 (new_Balance 0 0 0)))) = 5 \<and>
   amounts (addTxid_spec Confirmed ''t1'' 7 (addTxid Mempool ''t1'' 5 (new_Balance 0 0 0))) Mempool = 0 \<and>
   consolidated (formatted
     (addTxid_spec Confirmed ''t1'' 7 (addTxid Mempool ''t1'' 5 (new_Balance 0 0 0)))) = 7 \<and>
   addTxid Confirmed ''t1'' 7 (addTxid Mempool ''t1'' 5 (new_Balance 0 0 0))
     \<noteq> addTxid_spec Confirmed ''t1'' 7 (addTxid Mempool ''t1'' 5 (new_Balance 0 0 0))"
proof -
  let ?B = "addTxid Mempool ''t1'' 5 (new_Balance 0 0 0)"
  have c: "amounts (addTxid Confirmed ''t1'' 7 ?B) Mempool = - 2"
    by (simp add: addTxid_amounts addTxid_txids new_Balance_def)
  have c7: "amounts (addTxid Confirmed ''t1'' 7 ?B) Confirmed = 7"
    by (simp add: addTxid_amounts addTxid_txids new_Balance_def)
  have cs: "consolidated (formatted (addTxid Confirmed ''t1'' 7 ?B)) = 5"
    by (simp add: formatted_def addTxid_amounts addTxid_txids new_Balance_def)
  have s: "amounts (addTxid_spec Confirmed ''t1'' 7 ?B) Mempool = 0"
    by (simp add: addTxid_spec_amounts addTxid_amounts addTxid_txids new_Balance_def)
  have ss: "consolidated (formatted (addTxid_spec Confirmed ''t1'' 7 ?B)) = 7"
    by (simp add: formatted_def addTxid_spec_amounts addTxid_amounts addTxid_txids
          new_Balance_def)
  from c s have ne: "addTxid Confirmed ''t1'' 7 ?B \<noteq> addTxid_spec Confirmed ''t1'' 7 ?B"
    by auto
  show ?thesis
    by (rule conjI [OF c conjI [OF c7 conjI [OF cs conjI [OF s conjI [OF ss ne]]]]])
qed

section \<open>Properties of the history index\<close>

lemma digit_char_code: "d < 10 \<Longrightarrow> of_char (digit_char d) = 48 + d"
proof -
  assume "d < 10"
  then have "d \<in> {0, 1, 2, 3, 4, 5, 6, 7, 8, 9}"
    by auto
  then show ?thesis
    by (auto simp: digit_char_def)
qed

lemma digit_char_inj:
  assumes "a < 10" and "b < 10" and "digit_char a = digit_char b"
  shows "a = b"
proof -
  have "48 + a = (of_char (digit_char a) :: nat)"
    using assms(1) by (simp only: digit_char_code)
  also have "\<dots> = of_char (digit_char b)"
    by (simp only: assms(3))
  also have "\<dots> = 48 + b"
    using assms(2) by (simp only: digit_char_code)
  finally show ?thesis by simp
qed

lemma digit_char_not_minus:
  assumes "d < 10"
  shows "digit_char d \<noteq> CHR ''-''"
proof
  assume "digit_char d = CHR ''-''"
  then have "(of_char (digit_char d) :: nat) = of_char CHR ''-''"
    by (simp only:)
  then have "48 + d = (45 :: nat)"
    using assms by (simp add: digit_char_code)
  then show False by simp
qed

lemma digits_not_Nil: "digits n \<noteq> []"
  by (subst digits.simps) simp

lemma hd_digits_not_minus: "hd (digits n) \<noteq> CHR ''-''"
proof (induction n rule: digits.induct)
  case (1 n)
  show ?case
  proof (cases "n < 10")
    case True
    then show ?thesis
      by (subst digits.simps) (simp add: digit_char_not_minus)
  next
    case False
    with 1 have "hd (digits (n div 10)) \<noteq> CHR ''-''" by simp
    with False show ?thesis
      by (subst digits.simps) (simp add: digits_not_Nil)
  qed
qed

lemma digits_inj: "digits n = digits m \<Longrightarrow> n = m"
proof (induction n arbitrary: m rule: digits.induct)
  case (1 n)
  show ?case
  proof (cases "n < 10")
    case n: True
    show ?thesis
    proof (cases "m < 10")
      case True
      with n "1.prems" show ?thesis
        by (subst (asm) digits.simps, subst (asm) (2) digits.simps)
           (simp add: digit_char_inj)
    next
      case False
      have "length (digits m) = Suc (length (digits (m div 10)))"
        using False by (subst digits.simps) simp
      moreover have "length (digits n) = 1"
        using n by (subst digits.simps) simp
      ultimately show ?thesis
        using "1.prems" digits_not_Nil [of "m div 10"] by simp
    qed
  next
    case n: False
    show ?thesis
    proof (cases "m < 10")
      case True
      have "length (digits n) = Suc (length (digits (n div 10)))"
        using n by (subst digits.simps) simp
      moreover have "length (digits m) = 1"
        using True by (subst digits.simps) simp
      ultimately show ?thesis
        using "1.prems" digits_not_Nil [of "n div 10"] by simp
    next
      case False
      have dn: "digits n = digits (n div 10) @ [digit_char (n mod 10)]"
        using n by (subst digits.simps) simp
      have dm: "digits m = digits (m div 10) @ [digit_char (m mod 10)]"
        using False by (subst digits.simps) simp
      from "1.prems" dn dm have
        q: "digits (n div 10) = digits (m div 10)" and
        r: "digit_char (n mod 10) = digit_char (m mod 10)"
        by simp_all
      from q n have "n div 10 = m div 10" by (rule "1.IH" [rotated])
      moreover from r have "n mod 10 = m mod 10"
        by (rule digit_char_inj [rotated 2]) simp_all
      ultimately show ?thesis
        by (metis div_mult_mod_eq)
    qed
  qed
qed

lemma num_str_inj: "num_str i = num_str j \<Longrightarrow> i = j"
proof -
  assume eq: "num_str i = num_str j"
  have hd_neg: "\<And>k. k < 0 \<Longrightarrow> hd (num_str k) = CHR ''-''"
    by (simp add: num_str_def)
  have hd_pos: "\<And>k. \<not> k < 0 \<Longrightarrow> hd (num_str k) \<noteq> CHR ''-''"
    by (simp add: num_str_def hd_digits_not_minus)
  show "i = j"
  proof (cases "i < 0")
    case True
    then have "j < 0" using eq hd_neg [of i] hd_pos [of j] by auto
    with True eq have "digits (nat (- i)) = digits (nat (- j))"
      by (simp add: num_str_def)
    then have "nat (- i) = nat (- j)" by (rule digits_inj)
    with True \<open>j < 0\<close> show ?thesis by simp
  next
    case False
    then have "\<not> j < 0" using eq hd_neg [of j] hd_pos [of i] by auto
    with False eq have "digits (nat i) = digits (nat j)"
      by (simp add: num_str_def)
    then have "nat i = nat j" by (rule digits_inj)
    with False \<open>\<not> j < 0\<close> show ?thesis by simp
  qed
qed

lemma ikey_eq_iff: "ikey h t = ikey h' t \<longleftrightarrow> h = h'"
  by (auto simp: ikey_def dest: num_str_inj)

lemma ikey_not_txkey: "ikey h t \<noteq> txkey u"
  by (simp add: ikey_def txkey_def)


lemma num_str_examples:
  "num_str 0 = ''0''" "num_str 840000 = ''840000''" "num_str (- 1) = ''-1''"
  by (simp_all add: num_str_def digits.simps digit_char_def)

text \<open>
  C7. After \<open>storeTx(tx)\<close> the reverse lookup \<open>getHeight(tx.txid)\<close> returns the height of
  \<open>tx\<close>, the key \<open>i:h:txid\<close> holds \<open>tx\<close>, and no entry is left at \<open>i:(h-1):txid\<close> or at
  \<open>i:0:txid\<close>. For a transaction of height 0 the key \<open>i:0:txid\<close> is the primary key and
  holds the transaction just written, which is not a stale entry.
\<close>

theorem storeTx_roundtrip:
  "getHeight (tx_txid tx) (storeTx tx am) = Some (HeightEntry (tx_height tx)) \<and>
   history (storeTx tx am) (ikey (tx_height tx) (tx_txid tx)) = Some (TxEntry tx) \<and>
   history (storeTx tx am) (ikey (tx_height tx - 1) (tx_txid tx)) = None \<and>
   (tx_height tx \<noteq> 0 \<longrightarrow> history (storeTx tx am) (ikey 0 (tx_txid tx)) = None)"
  by (simp add: storeTx_def getHeight_def Let_def ikey_eq_iff ikey_not_txkey)

theorem storeTx_roundtrip_witness:
  "tx_height \<lparr>tx_txid = ''ab'', tx_height = 5, tx_fee = 0\<rparr> \<noteq> 0 \<and>
   history \<lparr>history = [ikey 0 ''ab'' \<mapsto> TxEntry \<lparr>tx_txid = ''ab'', tx_height = 0, tx_fee = 0\<rparr>,
                          txkey ''ab'' \<mapsto> HeightEntry 0]\<rparr> (ikey 0 ''ab'')
     = Some (TxEntry \<lparr>tx_txid = ''ab'', tx_height = 0, tx_fee = 0\<rparr>) \<and>
   history (storeTx \<lparr>tx_txid = ''ab'', tx_height = 5, tx_fee = 0\<rparr>
      \<lparr>history = [ikey 0 ''ab'' \<mapsto> TxEntry \<lparr>tx_txid = ''ab'', tx_height = 0, tx_fee = 0\<rparr>,
                   txkey ''ab'' \<mapsto> HeightEntry 0]\<rparr>) (ikey 0 ''ab'') = None \<and>
   history (storeTx \<lparr>tx_txid = ''ab'', tx_height = 5, tx_fee = 0\<rparr>
      \<lparr>history = [ikey 0 ''ab'' \<mapsto> TxEntry \<lparr>tx_txid = ''ab'', tx_height = 0, tx_fee = 0\<rparr>,
                   txkey ''ab'' \<mapsto> HeightEntry 0]\<rparr>) (ikey 5 ''ab'')
     = Some (TxEntry \<lparr>tx_txid = ''ab'', tx_height = 5, tx_fee = 0\<rparr>) \<and>
   getHeight ''ab'' (storeTx \<lparr>tx_txid = ''ab'', tx_height = 5, tx_fee = 0\<rparr>
      \<lparr>history = [ikey 0 ''ab'' \<mapsto> TxEntry \<lparr>tx_txid = ''ab'', tx_height = 0, tx_fee = 0\<rparr>,
                   txkey ''ab'' \<mapsto> HeightEntry 0]\<rparr>) = Some (HeightEntry 5)"
proof -
  let ?tx = "\<lparr>tx_txid = ''ab'', tx_height = 5, tx_fee = 0\<rparr>"
  let ?am = "\<lparr>history = [ikey 0 ''ab'' \<mapsto> TxEntry \<lparr>tx_txid = ''ab'', tx_height = 0, tx_fee = 0\<rparr>,
                   txkey ''ab'' \<mapsto> HeightEntry 0]\<rparr>"
  have h: "tx_height ?tx \<noteq> 0" by simp
  have old: "history ?am (ikey 0 ''ab'')
      = Some (TxEntry \<lparr>tx_txid = ''ab'', tx_height = 0, tx_fee = 0\<rparr>)"
    by (simp add: ikey_not_txkey)
  note r = storeTx_roundtrip [of ?tx ?am]
  have w1: "getHeight ''ab'' (storeTx ?tx ?am) = Some (HeightEntry 5)"
    using r [THEN conjunct1] by simp
  have w2: "history (storeTx ?tx ?am) (ikey 5 ''ab'') = Some (TxEntry ?tx)"
    using r [THEN conjunct2, THEN conjunct1] by simp
  have w3: "history (storeTx ?tx ?am) (ikey 0 ''ab'') = None"
    using r [THEN conjunct2, THEN conjunct2, THEN conjunct2, THEN mp, OF h] by simp
  show ?thesis
    by (rule conjI [OF h conjI [OF old conjI [OF w3 conjI [OF w2 w1]]]])
qed

section \<open>Properties of the block reward\<close>

text \<open>
  C9. For every height \<open>h \<ge> 0\<close> the block reward is 5,000,000,000 satoshis divided by two
  to the power \<open>h div 210000\<close>, with no rounding: 5,000,000,000 at height 0,
  2,500,000,000 at height 210,000 and 625,000,000 at height 630,000. The input
  synthesized for a coinbase of a transaction at height \<open>h + 1\<close> carries the reward of
  height \<open>h\<close>.
\<close>

theorem getBlockReward_halving:
  "(0 \<le> h \<longrightarrow> getBlockReward h = 5000000000 / 2 ^ nat (h div 210000)) \<and>
   getBlockReward 0 = 5000000000 \<and>
   getBlockReward 210000 = 2500000000 \<and>
   getBlockReward 630000 = 625000000 \<and>
   in_value (coinbaseInput (h + 1) cb) = getBlockReward h"
  by (simp add: getBlockReward_def bn_pow_def Let_def coinbaseInput_def)

theorem getBlockReward_halving_witness:
  "(0::int) \<le> 420000 \<and> getBlockReward 420000 = 1250000000"
  using getBlockReward_halving [of 420000] by simp

section \<open>Properties of the request cache\<close>

lemma cache_set_session: "max_session_size (cache_set k v now c) = max_session_size c"
  by (simp add: cache_set_def Let_def size_setter_def removeOldest_def split: list.splits)

lemma cache_set_size: "cache_size (cache_set k v now c) = cache_size c"
  by (simp add: cache_set_def Let_def size_setter_def removeOldest_def split: list.splits)

lemma cache_set_limit: "max_cache_size (cache_set k v now c) = max_cache_size c"
  by (simp add: cache_set_def Let_def size_setter_def removeOldest_def split: list.splits)

lemma cache_set_dom:
  "max_session_size c = None \<Longrightarrow>
     dom (cache_entries (cache_set k v now c)) = insert k (dom (cache_entries c))"
  by (simp add: cache_set_def Let_def size_setter_def js_ge_def)

lemma cache_set_index:
  "max_session_size c = None \<Longrightarrow>
     getCacheIndex (cache_set k v now c) = getCacheIndex c @ [k]"
  by (simp add: cache_set_def Let_def size_setter_def js_ge_def getCacheIndex_def)

lemma cache_sets_session:
  "max_session_size (cache_sets kvs now c) = max_session_size c"
  by (induction kvs now c rule: cache_sets.induct) (simp_all add: cache_set_session)

lemma cache_sets_size: "cache_size (cache_sets kvs now c) = cache_size c"
  by (induction kvs now c rule: cache_sets.induct) (simp_all add: cache_set_size)

lemma cache_sets_limit: "max_cache_size (cache_sets kvs now c) = max_cache_size c"
  by (induction kvs now c rule: cache_sets.induct) (simp_all add: cache_set_limit)

lemma cache_sets_dom:
  "max_session_size c = None \<Longrightarrow>
     dom (cache_entries (cache_sets kvs now c)) = dom (cache_entries c) \<union> set (map fst kvs)"
proof (induction kvs now c rule: cache_sets.induct)
  case (1 now c)
  show ?case by simp
next
  case (2 k v kvs now c)
  have "max_session_size (cache_set k v now c) = None"
    using "2.prems" by (simp add: cache_set_session)
  then have "dom (cache_entries (cache_sets kvs now (cache_set k v now c)))
      = dom (cache_entries (cache_set k v now c)) \<union> set (map fst kvs)"
    by (rule "2.IH")
  then show ?case
    using "2.prems" by (simp add: cache_set_dom)
qed

lemma cache_sets_index:
  "max_session_size c = None \<Longrightarrow>
     getCacheIndex (cache_sets kvs now c) = getCacheIndex c @ map fst kvs"
proof (induction kvs now c rule: cache_sets.induct)
  case (1 now c)
  show ?case by simp
next
  case (2 k v kvs now c)
  have "max_session_size (cache_set k v now c) = None"
    using "2.prems" by (simp add: cache_set_session)
  then have "getCacheIndex (cache_sets kvs now (cache_set k v now c))
      = getCacheIndex (cache_set k v now c) @ map fst kvs"
    by (rule "2.IH")
  then show ?case
    using "2.prems" by (simp add: cache_set_index)
qed

text \<open>
  C4 asks that the number of cached entries never exceeds \<open>max_cache_size\<close>, \<open>set\<close>
  evicting the oldest key at capacity. The code does not bound the cache. \<open>set\<close> compares
  \<open>_cache_size\<close>, which stays 0 because the setter of \<open>size\<close> does nothing, with
  \<open>_max_session_size\<close>, which is never assigned, so it never calls \<open>_removeOldest\<close>:
  after any run of \<open>set\<close> calls on a new cache every key that was set is still cached.
  With \<open>max_cache_size = 2\<close>, three calls leave three entries.
\<close>

theorem cache_set_never_evicts:
  "dom (cache_entries (cache_sets kvs now (new_RequestCache cfg))) = set (map fst kvs) \<and>
   getCacheIndex (cache_sets kvs now (new_RequestCache cfg)) = map fst kvs \<and>
   cache_size (cache_sets kvs now (new_RequestCache cfg)) = 0 \<and>
   max_cache_size (new_RequestCache \<lparr>cfg_cache_timeout = None, cfg_max_cache_size = Some 2\<rparr>) = 2 \<and>
   card (dom (cache_entries (cache_sets [(''a'', v), (''b'', v), (''c'', v)] now
     (new_RequestCache \<lparr>cfg_cache_timeout = None, cfg_max_cache_size = Some 2\<rparr>)))) = 3"
proof -
  have s: "max_session_size (new_RequestCache c) = None" for c
    by (simp add: new_RequestCache_def)
  have e: "dom (cache_entries (new_RequestCache c)) = {}" for c
    by (simp add: new_RequestCache_def)
  have i: "getCacheIndex (new_RequestCache c) = []" for c
    by (simp add: new_RequestCache_def getCacheIndex_def)
  have z: "cache_size (new_RequestCache c) = 0" for c
    by (simp add: new_RequestCache_def)
  have m: "max_cache_size (new_RequestCache \<lparr>cfg_cache_timeout = None, cfg_max_cache_size = Some 2\<rparr>) = 2"
    by (simp add: new_RequestCache_def)
  have d: "dom (cache_entries (cache_sets kvs' now (new_RequestCache c))) = set (map fst kvs')"
    for kvs' c
    by (simp add: cache_sets_dom [OF s] e)
  have "dom (cache_entries (cache_sets [(''a'', v), (''b'', v), (''c'', v)] now
      (new_RequestCache \<lparr>cfg_cache_timeout = None, cfg_max_cache_size = Some 2\<rparr>)))
      = {''a'', ''b'', ''c''}"
    by (simp only: d) simp
  then have c3: "card (dom (cache_entries (cache_sets [(''a'', v), (''b'', v), (''c'', v)] now
      (new_RequestCache \<lparr>cfg_cache_timeout = None, cfg_max_cache_size = Some 2\<rparr>)))) = 3"
    by (simp only:) simp
  have ix: "getCacheIndex (cache_sets kvs now (new_RequestCache cfg)) = map fst kvs"
    by (simp add: cache_sets_index [OF s] i)
  have sz: "cache_size (cache_sets kvs now (new_RequestCache cfg)) = 0"
    by (simp add: cache_sets_size z)
  show ?thesis
    by (rule conjI [OF d [of kvs cfg] conjI [OF ix conjI [OF sz conjI [OF m c3]]]])
qed

section \<open>Properties of the transport\<close>

text \<open>
  C5 asks that a reply with a pending id, no error and a result of any value completes the
  request with exactly that value. The code hands over \<open>resp.result || resp.error\<close> unless
  the result is \<open>null\<close>: a truthy result and \<open>null\<close> arrive as they are, but for the
  results \<open>0\<close>, \<open>false\<close> and the empty string the request is completed with
  \<open>undefined\<close>.
\<close>

theorem handleResponse_falsy_result:
  "outcomes (handleResponse
      (Parsed \<lparr>resp_id = i, resp_method = None, resp_params = ps, resp_result = v,
               resp_error = Undefined\<rparr>)
      \<lparr>requests = R(i \<mapsto> m), outcomes = os\<rparr>)
     = os @ [Resolved i (if truthy v \<or> v = Null then v else Undefined)] \<and>
   outcomes (handleResponse
      (Parsed \<lparr>resp_id = Str ''7'', resp_method = None, resp_params = [], resp_result = Num 0,
               resp_error = Undefined\<rparr>)
      \<lparr>requests = [Str ''7'' \<mapsto> ''blockchain.estimatefee''], outcomes = []\<rparr>)
     = [Resolved (Str ''7'') Undefined] \<and>
   outcomes (handleResponse
      (Parsed \<lparr>resp_id = Str ''7'', resp_method = None, resp_params = [], resp_result = Bool False,
               resp_error = Undefined\<rparr>)
      \<lparr>requests = [Str ''7'' \<mapsto> ''blockchain.estimatefee''], outcomes = []\<rparr>)
     = [Resolved (Str ''7'') Undefined] \<and>
   outcomes (handleResponse
      (Parsed \<lparr>resp_id = Str ''7'', resp_method = None, resp_params = [], resp_result = Str [],
               resp_error = Undefined\<rparr>)
      \<lparr>requests = [Str ''7'' \<mapsto> ''blockchain.estimatefee''], outcomes = []\<rparr>)
     = [Resolved (Str ''7'') Undefined]"
  by (simp add: handleResponse_def handleReply_def js_or_def Let_def)


section \<open>Properties of the transaction fetch\<close>

lemma cache_get_set: "cache_get k (cache_set k v now c) = Some v"
  by (simp add: cache_get_def cache_set_def Let_def size_setter_def split: option.splits)

lemma procTxHeight_fetched: "procTxHeight (e\<lparr>fetched := xs\<rparr>) raw = procTxHeight e raw"
  by (simp add: procTxHeight_def split: option.splits)

lemma fetchTx_fetched: "fetched (snd (fetchTx server txid now e)) = fetched e @ [txid]"
  by (simp add: fetchTx_def Let_def split: sum.splits)

lemma fetchTx_ok:
  "server txid = Inr raw \<Longrightarrow>
     fst (fetchTx server txid now e) = Inr (procTxHeight e raw) \<and>
     cache_get txid (cache (snd (fetchTx server txid now e))) = Some (procTxHeight e raw)"
  by (simp add: fetchTx_def Let_def cache_get_set procTxHeight_fetched)

lemma fetchTx_error:
  "server txid = Inl err \<Longrightarrow>
     fst (fetchTx server txid now e) = Inl err \<and> cache (snd (fetchTx server txid now e)) = cache e"
  by (simp add: fetchTx_def Let_def)

text \<open>
  C6. With \<open>opts.cache = false\<close> the provider always fetches. Otherwise it returns the
  cached view, without a request and without touching its state, when the cache holds a
  view for the txid whose height is not 0; when the cached view has height 0, or the cache
  holds none, it fetches. A result that came without a request is therefore always a cached
  view of non-zero height. A fetch sends one request for the txid; when the server answers
  with a transaction, the result is that transaction with its height computed, and the
  cache holds it under the txid afterwards.
\<close>

theorem txGet_cache_rule:
  "(opts = Some False \<longrightarrow> txGet server txid opts now e = fetchTx server txid now e) \<and>
   (opts \<noteq> Some False \<longrightarrow>
      (\<forall>v. cache_get txid (cache e) = Some v \<and> raw_height v \<noteq> Some 0 \<longrightarrow>
           txGet server txid opts now e = (Inr v, e)) \<and>
      (\<forall>v. cache_get txid (cache e) = Some v \<and> raw_height v = Some 0 \<longrightarrow>
           txGet server txid opts now e = fetchTx server txid now e) \<and>
      (cache_get txid (cache e) = None \<longrightarrow>
           txGet server txid opts now e = fetchTx server txid now e)) \<and>
   (fetched (snd (txGet server txid opts now e)) = fetched e \<longrightarrow>
      opts \<noteq> Some False \<and>
      (\<exists>v. cache_get txid (cache e) = Some v \<and> raw_height v \<noteq> Some 0 \<and>
           txGet server txid opts now e = (Inr v, e))) \<and>
   fetched (snd (fetchTx server txid now e)) = fetched e @ [txid] \<and>
   (\<forall>raw. server txid = Inr raw \<longrightarrow>
      fst (fetchTx server txid now e) = Inr (procTxHeight e raw) \<and>
      cache_get txid (cache (snd (fetchTx server txid now e))) = Some (procTxHeight e raw))"
proof -
  have a: "opts = Some False \<longrightarrow> txGet server txid opts now e = fetchTx server txid now e"
    by (simp add: txGet_def)
  have b: "opts \<noteq> Some False \<longrightarrow>
      (\<forall>v. cache_get txid (cache e) = Some v \<and> raw_height v \<noteq> Some 0 \<longrightarrow>
           txGet server txid opts now e = (Inr v, e)) \<and>
      (\<forall>v. cache_get txid (cache e) = Some v \<and> raw_height v = Some 0 \<longrightarrow>
           txGet server txid opts now e = fetchTx server txid now e) \<and>
      (cache_get txid (cache e) = None \<longrightarrow>
           txGet server txid opts now e = fetchTx server txid now e)"
    by (simp add: txGet_def)
  have c: "fetched (snd (txGet server txid opts now e)) = fetched e \<longrightarrow>
      opts \<noteq> Some False \<and>
      (\<exists>v. cache_get txid (cache e) = Some v \<and> raw_height v \<noteq> Some 0 \<and>
           txGet server txid opts now e = (Inr v, e))"
    by (simp add: txGet_def fetchTx_fetched split: option.splits)
  have d: "\<forall>raw. server txid = Inr raw \<longrightarrow>
      fst (fetchTx server txid now e) = Inr (procTxHeight e raw) \<and>
      cache_get txid (cache (snd (fetchTx server txid now e))) = Some (procTxHeight e raw)"
    using fetchTx_ok by blast
  note f = fetchTx_fetched [of server txid now e]
  show ?thesis
    by (rule conjI [OF a conjI [OF b conjI [OF c conjI [OF f d]]]])
qed


theorem txGet_cache_rule_witness:
  "cache_get ''aa''
     (cache \<lparr>cache = cache_set ''aa''
                \<lparr>raw_txid = ''aa'', confirmations = None, raw_height = Some 0, raw_expiry = None\<rparr> 0
                (new_RequestCache \<lparr>cfg_cache_timeout = None, cfg_max_cache_size = None\<rparr>),
             block_height = 100, fetched = []\<rparr>)
     = Some \<lparr>raw_txid = ''aa'', confirmations = None, raw_height = Some 0, raw_expiry = None\<rparr> \<and>
   fst (txGet (\<lambda>t. Inr \<lparr>raw_txid = t, confirmations = Some 3, raw_height = None, raw_expiry = None\<rparr>)
          ''aa'' None 7
          \<lparr>cache = cache_set ''aa''
                \<lparr>raw_txid = ''aa'', confirmations = None, raw_height = Some 0, raw_expiry = None\<rparr> 0
                (new_RequestCache \<lparr>cfg_cache_timeout = None, cfg_max_cache_size = None\<rparr>),
           block_height = 100, fetched = []\<rparr>)
     = Inr \<lparr>raw_txid = ''aa'', confirmations = Some 3, raw_height = Some 98, raw_expiry = None\<rparr> \<and>
   fetched (snd (txGet (\<lambda>t. Inr \<lparr>raw_txid = t, confirmations = Some 3, raw_height = None, raw_expiry = None\<rparr>)
          ''aa'' None 7
          \<lparr>cache = cache_set ''aa''
                \<lparr>raw_txid = ''aa'', confirmations = None, raw_height = Some 0, raw_expiry = None\<rparr> 0
                (new_RequestCache \<lparr>cfg_cache_timeout = None, cfg_max_cache_size = None\<rparr>),
           block_height = 100, fetched = []\<rparr>))
     = [''aa''] \<and>
   txGet (\<lambda>t. Inl (RpcError ''down'')) ''bb'' (Some True) 9
      \<lparr>cache = cache_set ''bb''
                \<lparr>raw_txid = ''bb'', confirmations = Some 3, raw_height = Some 98, raw_expiry = None\<rparr> 0
                (new_RequestCache \<lparr>cfg_cache_timeout = None, cfg_max_cache_size = None\<rparr>),
       block_height = 100, fetched = []\<rparr>
     = (Inr \<lparr>raw_txid = ''bb'', confirmations = Some 3, raw_height = Some 98, raw_expiry = None\<rparr>,
        \<lparr>cache = cache_set ''bb''
                \<lparr>raw_txid = ''bb'', confirmations = Some 3, raw_height = Some 98, raw_expiry = None\<rparr> 0
                (new_RequestCache \<lparr>cfg_cache_timeout = None, cfg_max_cache_size = None\<rparr>),
         block_height = 100, fetched = []\<rparr>) \<and>
   fetched (snd (txGet (\<lambda>t. Inl (RpcError ''down'')) ''bb'' (Some False) 9
      \<lparr>cache = cache_set ''bb''
                \<lparr>raw_txid = ''bb'', confirmations = Some 3, raw_height = Some 98, raw_expiry = None\<rparr> 0
                (new_RequestCache \<lparr>cfg_cache_timeout = None, cfg_max_cache_size = None\<rparr>),
       block_height = 100, fetched = []\<rparr>))
     = [''bb'']"
proof -
  let ?c = "new_RequestCache \<lparr>cfg_cache_timeout = None, cfg_max_cache_size = None\<rparr>"
  let ?v0 = "\<lparr>raw_txid = ''aa'', confirmations = None, raw_height = Some 0, raw_expiry = None\<rparr>"
  let ?v1 = "\<lparr>raw_txid = ''bb'', confirmations = Some 3, raw_height = Some 98, raw_expiry = None\<rparr>"
  let ?e0 = "\<lparr>cache = cache_set ''aa'' ?v0 0 ?c, block_height = 100, fetched = []\<rparr>"
  let ?e1 = "\<lparr>cache = cache_set ''bb'' ?v1 0 ?c, block_height = 100, fetched = []\<rparr>"
  let ?up = "\<lambda>t. Inr \<lparr>raw_txid = t, confirmations = Some 3, raw_height = None, raw_expiry = None\<rparr>"
  let ?down = "\<lambda>t::string. (Inl (RpcError ''down'') :: rpc_error + rawTx)"
  have g0: "cache_get ''aa'' (cache ?e0) = Some ?v0"
    by (simp add: cache_get_set)
  have g1: "cache_get ''bb'' (cache ?e1) = Some ?v1"
    by (simp add: cache_get_set)
  have p: "procTxHeight ?e0 \<lparr>raw_txid = ''aa'', confirmations = Some 3, raw_height = None, raw_expiry = None\<rparr>
      = \<lparr>raw_txid = ''aa'', confirmations = Some 3, raw_height = Some 98, raw_expiry = None\<rparr>"
    by (simp add: procTxHeight_def)
  have h0: "raw_height ?v0 = Some 0" by simp
  have h1: "raw_height ?v1 \<noteq> Some 0" by simp
  have n0: "(None :: bool option) \<noteq> Some False" by simp
  have n1: "Some True \<noteq> Some False" by simp
  have s0: "?up ''aa'' = Inr \<lparr>raw_txid = ''aa'', confirmations = Some 3, raw_height = None, raw_expiry = None\<rparr>"
    by simp
  note r0 = txGet_cache_rule [of None ?up "''aa''" 7 ?e0]
  note r1 = txGet_cache_rule [of "Some True" ?down "''bb''" 9 ?e1]
  note r2 = txGet_cache_rule [of "Some False" ?down "''bb''" 9 ?e1]
  note miss = r0 [THEN conjunct2, THEN conjunct1, THEN mp, OF n0, THEN conjunct2, THEN conjunct1,
      THEN spec, THEN mp, OF conjI [OF g0 h0]]
  note log = r0 [THEN conjunct2, THEN conjunct2, THEN conjunct2, THEN conjunct1]
  note got = r0 [THEN conjunct2, THEN conjunct2, THEN conjunct2, THEN conjunct2, THEN spec,
      THEN mp, OF s0, THEN conjunct1]
  note hit = r1 [THEN conjunct2, THEN conjunct1, THEN mp, OF n1, THEN conjunct1,
      THEN spec, THEN mp, OF conjI [OF g1 h1]]
  note forced = r2 [THEN conjunct1, THEN mp, OF refl]
  note log2 = r2 [THEN conjunct2, THEN conjunct2, THEN conjunct2, THEN conjunct1]
  have w2: "fst (txGet ?up ''aa'' None 7 ?e0)
      = Inr \<lparr>raw_txid = ''aa'', confirmations = Some 3, raw_height = Some 98, raw_expiry = None\<rparr>"
    by (simp only: miss got p)
  have w3: "fetched (snd (txGet ?up ''aa'' None 7 ?e0)) = [''aa'']"
    by (simp only: miss log) simp
  have w5: "fetched (snd (txGet ?down ''bb'' (Some False) 9 ?e1)) = [''bb'']"
    by (simp only: forced log2) simp
  show ?thesis
    by (rule conjI [OF g0 conjI [OF w2 conjI [OF w3 conjI [OF hit w5]]]])
qed


section \<open>Properties of the transaction builder\<close>

lemma utxoForAmount_error: "utxoForAmount target sm = (Inl err, sm') \<Longrightarrow> err = Insufficient"
  by (auto simp: utxoForAmount_def Let_def split: option.splits)

lemma one_utxo_wallet_selection: "utxoForAmount a (tx_syncManager one_utxo_wallet) =
   (if a \<le> 0 then (Inr \<lparr>us_utxo = [], us_total = 0\<rparr>,
        \<lparr>utxos = [one_utxo], lockedUtxos = [], dust_margin = 0, outgoings = [], calls = [UtxoForAmount a]\<rparr>)
    else if a \<le> 10000 then (Inr \<lparr>us_utxo = [one_utxo], us_total = 10000\<rparr>,
        \<lparr>utxos = [one_utxo], lockedUtxos = [one_utxo], dust_margin = 0, outgoings = [], calls = [UtxoForAmount a]\<rparr>)
    else (Inl Insufficient, \<lparr>utxos = [one_utxo], lockedUtxos = [], dust_margin = 0, outgoings = [], calls = [UtxoForAmount a]\<rparr>))"
  by (simp add: utxoForAmount_def one_utxo_wallet_def new_Transaction_def Let_def one_utxo_def)

lemma one_utxo_wallet_fields:
  "max_fee_limit one_utxo_wallet = Some 100000" "txData one_utxo_wallet = []"
  by (simp_all add: one_utxo_wallet_def new_Transaction_def num_or_def)

lemma one_utxo_fields: "utxo_address one_utxo = ''mine''" "utxo_value one_utxo = 10000"
  by (simp_all add: one_utxo_def)

lemma one_utxo_wallet_create:
  "createTransaction 3 (\<lambda>ins outs. 110) ''change''
          \<lparr>req_address = ''dest'', req_amount = 5000, req_fee = Some 2\<rparr> one_utxo_wallet
      = Some (Inr \<lparr>entry_to_address = [''dest'', ''change''], entry_fee = 220, entry_fee_rate = 2,
                   entry_amount = 5000, entry_from_address = [''mine'']\<rparr>,
              one_utxo_wallet
                \<lparr>tx_syncManager :=
                   \<lparr>utxos = [one_utxo], lockedUtxos = [one_utxo], dust_margin = 0,
                    outgoings = [\<lparr>sent_to = ''dest'', sent_changeAddress = ''change'', sent_fee = 220,
                       sent_totalSpent = 5220, sent_feeRate = 2, sent_vSize = 110,
                       sent_utxo = [one_utxo],
                       sent_vout = [(''dest'', 5000), (''change'', 4780)]\<rparr>],
                    calls = [UtxoForAmount 5000, AddSentTx]\<rparr>,
                 txData :=
                   [\<lparr>sent_to = ''dest'', sent_changeAddress = ''change'', sent_fee = 2,
                       sent_totalSpent = 5002, sent_feeRate = 0, sent_vSize = 110,
                       sent_utxo = [one_utxo],
                       sent_vout = [(''dest'', 5000), (''change'', 4998)]\<rparr>,
                    \<lparr>sent_to = ''dest'', sent_changeAddress = ''change'', sent_fee = 220,
                       sent_totalSpent = 5220, sent_feeRate = 2, sent_vSize = 110,
                       sent_utxo = [one_utxo],
                       sent_vout = [(''dest'', 5000), (''change'', 4780)]\<rparr>]\<rparr>)"
proof -
  have fee: "\<not> invalid_fee (Some 2) (Some 100000)"
    by (simp add: invalid_fee_def)
  show ?thesis
    by (simp add: createTransaction_def one_utxo_wallet_fields fee one_utxo_wallet_selection
          numeral_3_eq_3 DUST_LIMIT_def Let_def getLastAttempt_def addSentTx_def one_utxo_fields
          fee_rate_too_high_def psbt_fee_rate_def maximumFeeRate_def)
qed

text \<open>
  C1 asks that every failing \<open>send\<close> releases the UTXO locks, by \<open>unlockUtxo(false)\<close>,
  before the error reaches the caller. The code does so on one path only, the broadcast
  that returns a value with a \<open>message\<close>. On the wallet with one output of 10,000
  satoshis: sending 500 satoshis fails on the dust limit after coin selection has locked
  the output, and sending 5,000 satoshis fails when the broadcast throws; in both cases the
  output is still locked and \<open>unlockUtxo\<close> was never called. When the broadcast returns a
  message instead, \<open>unlockUtxo(false)\<close> is called and no lock remains.
\<close>

theorem send_failure_keeps_locks:
  "(\<exists>T. send 3 vsz provider ''change'' \<lparr>req_address = ''dest'', req_amount = 500, req_fee = Some 2\<rparr>
          one_utxo_wallet = Some (Inl (SimulateFailed (DustAmount 500)), T) \<and>
        lockedUtxos (tx_syncManager T) = [one_utxo] \<and>
        calls (tx_syncManager T) = [UtxoForAmount 500]) \<and>
   (\<exists>T. send 3 (\<lambda>ins outs. 110) (\<lambda>tx. Throws) ''change''
          \<lparr>req_address = ''dest'', req_amount = 5000, req_fee = Some 2\<rparr> one_utxo_wallet
          = Some (Inl BroadcastThrew, T) \<and>
        lockedUtxos (tx_syncManager T) = [one_utxo] \<and>
        calls (tx_syncManager T) = [UtxoForAmount 5000, AddSentTx]) \<and>
   (\<exists>T. send 3 (\<lambda>ins outs. 110) (\<lambda>tx. Reply (Some ''bad-txns'')) ''change''
          \<lparr>req_address = ''dest'', req_amount = 5000, req_fee = Some 2\<rparr> one_utxo_wallet
          = Some (Inl (BroadcastFailed ''bad-txns''), T) \<and>
        lockedUtxos (tx_syncManager T) = [] \<and>
        calls (tx_syncManager T) = [UtxoForAmount 5000, AddSentTx, UnlockUtxo False])"
proof -
  note lim = one_utxo_wallet_fields
  have fee: "\<not> invalid_fee (Some 2) (Some 100000)"
    by (simp add: invalid_fee_def)
  note three = numeral_3_eq_3
  note create = one_utxo_wallet_create
  have a: "\<exists>T. send 3 vsz provider ''change'' \<lparr>req_address = ''dest'', req_amount = 500, req_fee = Some 2\<rparr>
          one_utxo_wallet = Some (Inl (SimulateFailed (DustAmount 500)), T) \<and>
        lockedUtxos (tx_syncManager T) = [one_utxo] \<and>
        calls (tx_syncManager T) = [UtxoForAmount 500]"
    by (simp add: send_def createTransaction_def lim fee one_utxo_wallet_selection three DUST_LIMIT_def)
  have b: "\<exists>T. send 3 (\<lambda>ins outs. 110) (\<lambda>tx. Throws) ''change''
          \<lparr>req_address = ''dest'', req_amount = 5000, req_fee = Some 2\<rparr> one_utxo_wallet
          = Some (Inl BroadcastThrew, T) \<and>
        lockedUtxos (tx_syncManager T) = [one_utxo] \<and>
        calls (tx_syncManager T) = [UtxoForAmount 5000, AddSentTx]"
    by (simp add: send_def create getLastAttempt_def)
  have c: "\<exists>T. send 3 (\<lambda>ins outs. 110) (\<lambda>tx. Reply (Some ''bad-txns'')) ''change''
          \<lparr>req_address = ''dest'', req_amount = 5000, req_fee = Some 2\<rparr> one_utxo_wallet
          = Some (Inl (BroadcastFailed ''bad-txns''), T) \<and>
        lockedUtxos (tx_syncManager T) = [] \<and>
        calls (tx_syncManager T) = [UtxoForAmount 5000, AddSentTx, UnlockUtxo False]"
    by (simp add: send_def create getLastAttempt_def unlockUtxo_def first_line_def Let_def)
  show ?thesis
    by (rule conjI [OF a conjI [OF b c]])
qed

lemma generateRawTx_built:
  "generateRawTx n vsz us fee amt addr chg w T = Some (Inr e, T') \<Longrightarrow>
     \<exists>l. getLastAttempt T' = Some l \<and> sent_feeRate l < maximumFeeRate"
proof (induction n arbitrary: us T)
  case 0
  then show ?case by simp
next
  case (Suc n)
  show ?case
  proof (cases "amt \<le> DUST_LIMIT")
    case True
    with Suc.prems show ?thesis by simp
  next
    case dust: False
    show ?thesis
    proof (cases "us_total us - amt - fee * int w < DUST_LIMIT")
      case True
      obtain r sm where sel:
        "utxoForAmount (us_total us + fee)
           (unlockUtxo False (tx_syncManager T)) = (r, sm)"
        by (cases "utxoForAmount (us_total us + fee) (unlockUtxo False (tx_syncManager T))")
      show ?thesis
      proof (cases r)
        case (Inl err)
        with Suc.prems dust True sel show ?thesis
          by (simp add: Let_def)
      next
        case (Inr us')
        with Suc.prems dust True sel have
          "generateRawTx n vsz us' fee amt addr chg w
             (T\<lparr>tx_syncManager := sm\<rparr>) = Some (Inr e, T')"
          by (simp add: Let_def)
        then show ?thesis by (rule Suc.IH)
      qed
    next
      case False
      with Suc.prems dust show ?thesis
        by (auto simp: Let_def getLastAttempt_def fee_rate_too_high_def psbt_fee_rate_def
              maximumFeeRate_def split: if_splits)
    qed
  qed
qed

lemma createTransaction_built:
  "createTransaction n vsz changeAddr req T = Some (Inr e, T') \<Longrightarrow>
     \<exists>l. getLastAttempt T' = Some l \<and> sent_feeRate l < maximumFeeRate"
proof -
  assume ok: "createTransaction n vsz changeAddr req T = Some (Inr e, T')"
  then obtain us fee w T1 T2 where
    g: "generateRawTx n vsz us fee (req_amount req) (req_address req) changeAddr w T1
          = Some (Inr e, T2)"
    and t: "txData T' = txData T2"
    by (auto simp: createTransaction_def Let_def
          split: if_splits prod.splits sum.splits option.splits)
  from generateRawTx_built [OF g] obtain l where
    "getLastAttempt T2 = Some l" "sent_feeRate l < maximumFeeRate"
    by blast
  with t show ?thesis
    by (auto simp: getLastAttempt_def split: if_splits)
qed

lemma one_coin_wallet_selection:
  "utxoForAmount 5000 (tx_syncManager one_coin_wallet) =
     (Inr \<lparr>us_utxo = [one_coin], us_total = 100000000\<rparr>,
      \<lparr>utxos = [one_coin], lockedUtxos = [one_coin], dust_margin = 0, outgoings = [],
       calls = [UtxoForAmount 5000]\<rparr>)"
  by (simp add: utxoForAmount_def one_coin_wallet_def new_Transaction_def Let_def one_coin_def)

lemma one_coin_wallet_fields:
  "max_fee_limit one_coin_wallet = Some 100000" "txData one_coin_wallet = []"
  by (simp_all add: one_coin_wallet_def new_Transaction_def num_or_def)

lemma one_coin_fields: "utxo_address one_coin = ''mine''" "utxo_value one_coin = 100000000"
  by (simp_all add: one_coin_def)

text \<open>
  C10, as the code has it. Whatever the configuration says, the fee limit of a builder is
  100,000, and \<open>_createTransaction\<close> fails with the invalid-fee error of its first line
  exactly when the fee is absent, zero, negative or above 100,000; the error carries the
  fee of the request. A fee that passes this check is not thereby accepted: the PSBT
  library refuses a transaction whose fee rate reaches 5,000 satoshis per virtual byte,
  so every transaction that \<open>_createTransaction\<close> returns pays a fee rate below 5,000.
\<close>

theorem createTransaction_fee_limit:
  "max_fee_limit (new_Transaction cfg) = Some 100000 \<and>
   ((\<exists>T'. createTransaction n vsz changeAddr req (new_Transaction cfg)
            = Some (Inl (InvalidFee (req_fee req)), T'))
      = (req_fee req = None \<or> (\<exists>f. req_fee req = Some f \<and> (f \<le> 0 \<or> 100000 < f)))) \<and>
   ((\<exists>f T'. createTransaction n vsz changeAddr req (new_Transaction cfg)
            = Some (Inl (InvalidFee f), T'))
      = (\<exists>T'. createTransaction n vsz changeAddr req (new_Transaction cfg)
            = Some (Inl (InvalidFee (req_fee req)), T'))) \<and>
   (createTransaction n vsz changeAddr req T = Some (Inr entry, T') \<longrightarrow>
      (\<exists>l. getLastAttempt T' = Some l \<and> sent_feeRate l < 5000))"
proof -
  let ?T = "new_Transaction cfg"
  have lim: "max_fee_limit ?T = Some 100000"
    by (simp add: new_Transaction_def num_or_def)
  have inv: "invalid_fee (req_fee req) (max_fee_limit ?T)
      = (req_fee req = None \<or> (\<exists>f. req_fee req = Some f \<and> (f \<le> 0 \<or> 100000 < f)))"
    by (cases "req_fee req") (auto simp: invalid_fee_def lim)
  have rej: "invalid_fee (req_fee req) (max_fee_limit ?T) \<Longrightarrow>
      createTransaction n vsz changeAddr req ?T = Some (Inl (InvalidFee (req_fee req)), ?T)"
    by (simp add: createTransaction_def)
  have acc: "\<not> invalid_fee (req_fee req) (max_fee_limit ?T) \<Longrightarrow>
      createTransaction n vsz changeAddr req ?T \<noteq> Some (Inl (InvalidFee f), T0)" for f T0
    by (auto simp: createTransaction_def Let_def
          split: prod.splits sum.splits option.splits dest: utxoForAmount_error)
  have e1: "(\<exists>T'. createTransaction n vsz changeAddr req ?T
            = Some (Inl (InvalidFee (req_fee req)), T'))
      = invalid_fee (req_fee req) (max_fee_limit ?T)"
    using rej acc by blast
  have e2: "(\<exists>f T'. createTransaction n vsz changeAddr req ?T = Some (Inl (InvalidFee f), T'))
      = invalid_fee (req_fee req) (max_fee_limit ?T)"
    using rej acc by blast
  have c2: "(\<exists>T'. createTransaction n vsz changeAddr req ?T
            = Some (Inl (InvalidFee (req_fee req)), T'))
      = (req_fee req = None \<or> (\<exists>f. req_fee req = Some f \<and> (f \<le> 0 \<or> 100000 < f)))"
    by (simp only: e1 inv)
  have c3: "(\<exists>f T'. createTransaction n vsz changeAddr req ?T = Some (Inl (InvalidFee f), T'))
      = (\<exists>T'. createTransaction n vsz changeAddr req ?T
            = Some (Inl (InvalidFee (req_fee req)), T'))"
    by (simp only: e1 e2)
  have c4: "createTransaction n vsz changeAddr req T = Some (Inr entry, T') \<longrightarrow>
      (\<exists>l. getLastAttempt T' = Some l \<and> sent_feeRate l < 5000)"
    using createTransaction_built [of n vsz changeAddr req T entry T']
    by (simp add: maximumFeeRate_def)
  show ?thesis
    by (rule conjI [OF lim conjI [OF c2 conjI [OF c3 c4]]])
qed

text \<open>
  On the wallet with one output of 10,000 satoshis, 5,000 satoshis at a fee of 2 are built
  into a transaction of fee rate 2.
\<close>

theorem createTransaction_fee_limit_witness:
  "\<exists>entry T'. createTransaction 3 (\<lambda>ins outs. 110) ''change''
        \<lparr>req_address = ''dest'', req_amount = 5000, req_fee = Some 2\<rparr> one_utxo_wallet
        = Some (Inr entry, T') \<and>
      (\<exists>l. getLastAttempt T' = Some l \<and> sent_feeRate l < 5000)"
proof -
  note c = one_utxo_wallet_create
  note r = createTransaction_fee_limit [THEN conjunct2, THEN conjunct2, THEN conjunct2,
      THEN mp, OF c]
  show ?thesis
    by (rule exI, rule exI, rule conjI [OF c r])
qed

text \<open>
  A fee of 5,000 is neither absent, zero, negative nor above 100,000, and the wallet with
  one coin has the funds for it; yet \<open>_createTransaction\<close> fails. The probe pass builds a
  transaction of 110 virtual bytes at a fee of 5,000 satoshis; the final pass asks for a
  fee of 550,000 satoshis, a rate of 5,000, and the PSBT library refuses it.
\<close>

theorem createTransaction_fee_limit_counterexample:
  "(0::int) < 5000 \<and> (5000::int) \<le> 100000 \<and>
   map_option fst (createTransaction 3 vsize_110 ''change''
        \<lparr>req_address = ''dest'', req_amount = 5000, req_fee = Some 5000\<rparr> one_coin_wallet)
     = Some (Inl (SendFailed FeeRateTooHigh))"
proof -
  have fee: "\<not> invalid_fee (Some 5000) (Some 100000)"
    by (simp add: invalid_fee_def)
  have "map_option fst (createTransaction 3 vsize_110 ''change''
        \<lparr>req_address = ''dest'', req_amount = 5000, req_fee = Some 5000\<rparr> one_coin_wallet)
     = Some (Inl (SendFailed FeeRateTooHigh))"
    by (simp add: createTransaction_def one_coin_wallet_fields fee one_coin_wallet_selection
          numeral_3_eq_3 DUST_LIMIT_def Let_def getLastAttempt_def one_coin_fields vsize_110_def
          fee_rate_too_high_def psbt_fee_rate_def maximumFeeRate_def)
  then show ?thesis by simp
qed

end
